theory Spec2Isabelle
  imports Main
begin

section \<open>Python values and exceptions\<close>

text \<open>
  The payment subsystem of EduHealth (\<^verbatim>\<open>src/paystack_integration.py\<close> and the payment
  routes of \<^verbatim>\<open>src/app.py\<close>) works on loosely typed values decoded from JSON: request
  bodies, webhook payloads and the gateway's replies. They are modelled by one datatype.
  A Python \<^verbatim>\<open>dict\<close> is an association list in insertion order (the keys of a decoded
  object are distinct); \<^verbatim>\<open>None\<close> is \<open>JNull\<close>. JSON numbers with a fraction are outside
  the model. A \<open>string\<close> stands for a Python \<^verbatim>\<open>str\<close> of code points below 256, and for
  \<^verbatim>\<open>bytes\<close>.
\<close>

datatype json =
    JNull
  | JBool bool
  | JInt int
  | JStr string
  | JArr "json list"
  | JObj "(string \<times> json) list"

text \<open>
  Exceptions are values; every function that can raise returns \<open>exn + 'a\<close>.
  \<open>RequestException\<close> stands for the transport failures of the HTTP library
  (connection errors, timeouts); \<open>HTTPError\<close> is what \<^verbatim>\<open>raise_for_status\<close> raises.
\<close>

datatype exn =
    AttributeError
  | TypeError
  | KeyError
  | ValueError
  | IntegrityError
  | RequestException
  | HTTPError
  | JSONDecodeError
  | OverflowError
  | DriverError

definition bind_exn :: "exn + 'a \<Rightarrow> ('a \<Rightarrow> exn + 'b) \<Rightarrow> exn + 'b" where
  "bind_exn m f = (case m of Inl e \<Rightarrow> Inl e | Inr x \<Rightarrow> f x)"

text \<open>\<^verbatim>\<open>d.get(k, default)\<close>: an \<^verbatim>\<open>AttributeError\<close> when \<open>d\<close> is not a dict.\<close>

fun py_get :: "json \<Rightarrow> string \<Rightarrow> json \<Rightarrow> exn + json" where
  "py_get (JObj kvs) k d = Inr (case map_of kvs k of None \<Rightarrow> d | Some v \<Rightarrow> v)"
| "py_get _ k d = Inl AttributeError"

text \<open>\<^verbatim>\<open>d[k]\<close> with a string key: \<^verbatim>\<open>KeyError\<close> on a dict without the key,
  \<^verbatim>\<open>TypeError\<close> on every other value.\<close>

fun py_getitem :: "json \<Rightarrow> string \<Rightarrow> exn + json" where
  "py_getitem (JObj kvs) k = (case map_of kvs k of None \<Rightarrow> Inl KeyError | Some v \<Rightarrow> Inr v)"
| "py_getitem _ k = Inl TypeError"

text \<open>Truth value of a decoded value, as \<^verbatim>\<open>if x:\<close> and \<^verbatim>\<open>x and y\<close> test it.\<close>

fun truthy :: "json \<Rightarrow> bool" where
  "truthy JNull = False"
| "truthy (JBool b) = b"
| "truthy (JInt n) = (n \<noteq> 0)"
| "truthy (JStr s) = (s \<noteq> [])"
| "truthy (JArr xs) = (xs \<noteq> [])"
| "truthy (JObj kvs) = (kvs \<noteq> [])"

text \<open>\<^verbatim>\<open>x / 100\<close> for the webhook's amount in minor units. Decimal amounts are kept in
  hundredths, so the quotient of \<open>n\<close> minor units is \<open>n\<close> hundredths; \<^verbatim>\<open>bool\<close> is a
  subtype of \<^verbatim>\<open>int\<close> in Python. The division of integers is a float division: it raises
  \<^verbatim>\<open>OverflowError\<close> when the quotient rounds to a value beyond the largest float, which
  is from \<open>2 ^ 1024 - 2 ^ 970\<close> on. Below that the float is the nearest one to the
  quotient; the model keeps the quotient itself, which is what the column of two decimals
  stores for amounts below \<open>10 ^ 15\<close> minor units, and the theorems that name a stored
  amount are stated for such amounts.\<close>

fun py_div_100 :: "json \<Rightarrow> exn + int" where
  "py_div_100 (JInt n) =
     (if 100 * (2 ^ 1024 - 2 ^ 970) \<le> \<bar>n\<bar> then Inl OverflowError else Inr n)"
| "py_div_100 (JBool b) = Inr (if b then 1 else 0)"
| "py_div_100 _ = Inl TypeError"

section \<open>\<^verbatim>\<open>json.dumps(value, separators=(',', ':'))\<close>\<close>

definition digit :: "nat \<Rightarrow> char" where
  "digit n = char_of (48 + n)"

fun str_nat :: "nat \<Rightarrow> string" where
  "str_nat n = (if n < 10 then [digit n] else str_nat (n div 10) @ [digit (n mod 10)])"

declare str_nat.simps [simp del]

definition str_int :: "int \<Rightarrow> string" where
  "str_int i = (if i < 0 then CHR ''-'' # str_nat (nat (- i)) else str_nat (nat i))"

definition hex_digit :: "nat \<Rightarrow> char" where
  "hex_digit n = (if n < 10 then char_of (48 + n) else char_of (87 + n))"

text \<open>The encoder's default \<^verbatim>\<open>ensure_ascii=True\<close>: the quote (34) and the backslash (92)
  are escaped, the control characters have their short forms, and every other code point
  outside the printable ASCII range becomes \<^verbatim>\<open>\u00xx\<close>.\<close>

definition escape_char :: "char \<Rightarrow> string" where
  "escape_char c =
     (let n = (of_char c :: nat) in
      if n = 34 then [CHR 0x5C, CHR 0x22]
      else if n = 92 then [CHR 0x5C, CHR 0x5C]
      else if n = 8 then [CHR 0x5C, CHR ''b'']
      else if n = 12 then [CHR 0x5C, CHR ''f'']
      else if n = 10 then [CHR 0x5C, CHR ''n'']
      else if n = 13 then [CHR 0x5C, CHR ''r'']
      else if n = 9 then [CHR 0x5C, CHR ''t'']
      else if 32 \<le> n \<and> n \<le> 126 then [c]
      else [CHR 0x5C, CHR ''u'', CHR ''0'', CHR ''0'', hex_digit (n div 16), hex_digit (n mod 16)])"

definition encode_basestring_ascii :: "string \<Rightarrow> string" where
  "encode_basestring_ascii s = CHR 0x22 # concat (map escape_char s) @ [CHR 0x22]"

fun join :: "string \<Rightarrow> string list \<Rightarrow> string" where
  "join sep [] = []"
| "join sep [x] = x"
| "join sep (x # y # ys) = x @ sep @ join sep (y # ys)"

primrec json_dumps :: "json \<Rightarrow> string" where
  "json_dumps JNull = ''null''"
| "json_dumps (JBool b) = (if b then ''true'' else ''false'')"
| "json_dumps (JInt n) = str_int n"
| "json_dumps (JStr s) = encode_basestring_ascii s"
| "json_dumps (JArr xs) = ''['' @ join '','' (map json_dumps xs) @ '']''"
| "json_dumps (JObj kvs) =
     ''{'' @ join '','' (map (\<lambda>(k, v). encode_basestring_ascii k @ '':'' @ v)
                         (map (map_prod id json_dumps) kvs)) @ ''}''"

section \<open>What the code takes from outside\<close>

text \<open>
  The libraries and the network are parameters of the model, collected in one record:
  \<^item> \<open>hmac_sha512_hexdigest key msg\<close> is
    \<^verbatim>\<open>hmac.new(key.encode('utf-8'), msg, hashlib.sha512).hexdigest()\<close>;
  \<^item> \<open>hash\<close> is Python's built-in string hash, fixed within one process;
  \<^item> \<open>str_exn\<close> and \<open>str_json\<close> are \<^verbatim>\<open>str(e)\<close> of an exception and of a decoded value,
    \<open>isoformat\<close> is \<^verbatim>\<open>datetime.isoformat\<close>;
  \<^item> \<open>requests_get url headers\<close> and \<open>requests_post url headers body\<close> are the gateway's
    answers to the two HTTP calls;
  \<^item> \<open>JSONDecodeError_is_RequestException\<close> says whether the installed HTTP library
    derives the error of \<^verbatim>\<open>response.json()\<close> from \<^verbatim>\<open>RequestException\<close>;
  \<^item> \<open>sql_param\<close> is what the database driver does with a bound value that is neither a
    string nor \<^verbatim>\<open>None\<close> (it may coerce it to text or raise);
  \<^item> \<open>zar_cents a\<close> is \<^verbatim>\<open>int(amount * 18 * 100)\<close> as the float arithmetic of
    \<^verbatim>\<open>initialize_transaction\<close> gives it for an amount of \<open>a\<close> hundredths (17982 for 9.99
    and 179982 for 99.99; for other amounts it can be one less than \<open>a * 18\<close>).
  Every theorem below holds for all values of these parameters.
\<close>

datatype http_outcome =
    Raises exn
  | Response nat "json option"

type_synonym datetime = int

record externals =
  hmac_sha512_hexdigest :: "string \<Rightarrow> string \<Rightarrow> string"
  hash :: "string \<Rightarrow> int"
  str_exn :: "exn \<Rightarrow> string"
  str_json :: "json \<Rightarrow> string"
  isoformat :: "datetime \<Rightarrow> string"
  requests_get :: "string \<Rightarrow> (string \<times> string) list \<Rightarrow> http_outcome"
  requests_post :: "string \<Rightarrow> (string \<times> string) list \<Rightarrow> json \<Rightarrow> http_outcome"
  JSONDecodeError_is_RequestException :: bool
  sql_param :: "json \<Rightarrow> exn + string option"
  zar_cents :: "int \<Rightarrow> int"

text \<open>\<^verbatim>\<open>except requests.exceptions.RequestException\<close>.\<close>

fun is_RequestException :: "externals \<Rightarrow> exn \<Rightarrow> bool" where
  "is_RequestException X RequestException = True"
| "is_RequestException X HTTPError = True"
| "is_RequestException X JSONDecodeError = JSONDecodeError_is_RequestException X"
| "is_RequestException X _ = False"

text \<open>\<^verbatim>\<open>datetime.utcnow()\<close> is a number of microseconds; \<^verbatim>\<open>timedelta(days=n)\<close> is
  added to it. \<^verbatim>\<open>datetime.now()\<close>, which is only formatted, is read field by field.\<close>

definition timedelta :: "int \<Rightarrow> int" where
  "timedelta days = days * 86400000000"

record clock_reading =
  year :: nat
  month :: nat
  day :: nat
  hour :: nat
  minute :: nat
  second :: nat
  microsecond :: nat

definition zfill :: "nat \<Rightarrow> string \<Rightarrow> string" where
  "zfill w s = replicate (w - length s) (CHR ''0'') @ s"

text \<open>\<^verbatim>\<open>strftime('%Y%m%d%H%M%S')\<close>: no field below the second.\<close>

definition strftime_YmdHMS :: "clock_reading \<Rightarrow> string" where
  "strftime_YmdHMS t =
     zfill 4 (str_nat (year t)) @ zfill 2 (str_nat (month t)) @ zfill 2 (str_nat (day t)) @
     zfill 2 (str_nat (hour t)) @ zfill 2 (str_nat (minute t)) @ zfill 2 (str_nat (second t))"

section \<open>The gateway client: \<^verbatim>\<open>PaystackPayment\<close>\<close>

record PaystackPayment =
  public_key :: string
  secret_key :: string
  base_url :: string

definition headers :: "PaystackPayment \<Rightarrow> (string \<times> string) list" where
  "headers self =
     [(''Authorization'', ''Bearer '' @ secret_key self), (''Content-Type'', ''application/json'')]"

text \<open>The reference built inside \<^verbatim>\<open>initialize_transaction\<close> (line 36):
  \<^verbatim>\<open>f"eduhealth_{datetime.now().strftime('%Y%m%d%H%M%S')}_{hash(email) % 10000}"\<close>.
  Python's \<^verbatim>\<open>%\<close> with a positive modulus is \<open>mod\<close> on \<open>int\<close>.\<close>

definition reference_of :: "externals \<Rightarrow> clock_reading \<Rightarrow> string \<Rightarrow> string" where
  "reference_of X now email =
     ''eduhealth_'' @ strftime_YmdHMS now @ ''_'' @ str_int (hash X email mod 10000)"

text \<open>The dict returned on a failure: \<^verbatim>\<open>{"status": False, "message": m, "error": e}\<close>.\<close>

definition error_dict :: "json \<Rightarrow> string \<Rightarrow> json" where
  "error_dict message err =
     JObj [(''status'', JBool False), (''message'', message), (''error'', JStr err)]"



text \<open>\<^verbatim>\<open>verify_transaction(self, reference)\<close>: \<^verbatim>\<open>raise_for_status\<close> raises for the
  status codes 400 to 599.\<close>

definition verify_transaction :: "externals \<Rightarrow> PaystackPayment \<Rightarrow> string \<Rightarrow> exn + json" where
  "verify_transaction X self reference =
     (let url = base_url self @ ''/transaction/verify/'' @ reference;
          attempt =
            (case requests_get X url (headers self) of
               Raises e \<Rightarrow> Inl e
             | Response status_code body \<Rightarrow>
                 if 400 \<le> status_code \<and> status_code < 600 then Inl HTTPError
                 else (case body of None \<Rightarrow> Inl JSONDecodeError | Some v \<Rightarrow> Inr v))
      in case attempt of
           Inl e \<Rightarrow>
             if is_RequestException X e
             then Inr (error_dict (JStr ''Payment verification failed'') (str_exn X e))
             else Inl e
         | Inr r \<Rightarrow> Inr r)"

text \<open>\<^verbatim>\<open>hmac.compare_digest(a, b)\<close> on strings: a \<^verbatim>\<open>TypeError\<close> when \<open>b\<close> is
  \<^verbatim>\<open>None\<close> (the header is absent) or when a string has a character outside ASCII.\<close>

definition is_ascii :: "string \<Rightarrow> bool" where
  "is_ascii s = list_all (\<lambda>c. (of_char c :: nat) < 128) s"

fun compare_digest :: "string \<Rightarrow> string option \<Rightarrow> exn + bool" where
  "compare_digest a None = Inl TypeError"
| "compare_digest a (Some b) = (if is_ascii a \<and> is_ascii b then Inr (a = b) else Inl TypeError)"

definition verify_webhook_signature ::
  "externals \<Rightarrow> PaystackPayment \<Rightarrow> string \<Rightarrow> string option \<Rightarrow> exn + bool"
where
  "verify_webhook_signature X self payload signature =
     (let computed_signature = hmac_sha512_hexdigest X (secret_key self) payload
      in compare_digest computed_signature signature)"

text \<open>The class has no attribute \<^verbatim>\<open>verify_webhook\<close> (its methods are
  \<^verbatim>\<open>initialize_transaction\<close>, \<^verbatim>\<open>verify_transaction\<close>, \<^verbatim>\<open>create_plan\<close>,
  \<^verbatim>\<open>create_subscription\<close>, \<^verbatim>\<open>verify_webhook_signature\<close> and \<^verbatim>\<open>get_banks\<close>), so the call
  \<^verbatim>\<open>paystack.verify_webhook(payload, signature)\<close> of the route \<^verbatim>\<open>paystack_webhook\<close>
  raises when the attribute is looked up.\<close>

definition verify_webhook :: "PaystackPayment \<Rightarrow> string \<Rightarrow> string option \<Rightarrow> exn + bool" where
  "verify_webhook self payload signature = Inl AttributeError"

record environ =
  PAYSTACK_PUBLIC_KEY :: "string option"
  PAYSTACK_SECRET_KEY :: "string option"

text \<open>\<^verbatim>\<open>init_paystack_payment()\<close>: a missing or empty key raises \<^verbatim>\<open>ValueError\<close>.\<close>

definition init_paystack_payment :: "environ \<Rightarrow> exn + PaystackPayment" where
  "init_paystack_payment env =
     (case (PAYSTACK_PUBLIC_KEY env, PAYSTACK_SECRET_KEY env) of
        (Some pk, Some sk) \<Rightarrow>
          if pk = [] \<or> sk = [] then Inl ValueError
          else Inr \<lparr>public_key = pk, secret_key = sk, base_url = ''https://api.paystack.co''\<rparr>
      | _ \<Rightarrow> Inl ValueError)"

text \<open>The module-level \<^verbatim>\<open>paystack\<close> of \<^verbatim>\<open>app.py\<close>: \<^verbatim>\<open>None\<close> when the keys are missing.\<close>

definition paystack :: "environ \<Rightarrow> PaystackPayment option" where
  "paystack env = (case init_paystack_payment env of Inl e \<Rightarrow> None | Inr p \<Rightarrow> Some p)"

section \<open>The persisted state\<close>

text \<open>
  The rows of \<^verbatim>\<open>users\<close> and \<^verbatim>\<open>payment_transactions\<close> (\<^verbatim>\<open>app.py\<close>, lines 52 to 68 and 123
  to 134), with the columns the payment code reads or writes. Decimal amounts are in
  hundredths. A table is the list of its rows in storage order; the position of a row
  plays the part of its primary key.
\<close>

record User =
  id' :: string
  email :: string
  subscription_type :: string
  subscription_expires :: "datetime option"

record PaymentTransaction =
  user_id :: string
  paystack_reference :: string
  amount :: int
  currency :: string
  status :: string
  plan_type :: "string option"

record database =
  users :: "User list"
  payment_transactions :: "PaymentTransaction list"

text \<open>An object loaded by \<^verbatim>\<open>query.filter_by(...).first()\<close> is the first row that satisfies
  the filter (\<open>find\<close>); an assignment to one of its attributes, once committed, changes
  that row and no other.\<close>

fun update_first :: "('a \<Rightarrow> bool) \<Rightarrow> ('a \<Rightarrow> 'a) \<Rightarrow> 'a list \<Rightarrow> 'a list" where
  "update_first P f [] = []"
| "update_first P f (x # xs) = (if P x then f x # xs else x # update_first P f xs)"

text \<open>A value bound to a text column or compared with one: a string, \<^verbatim>\<open>None\<close> (SQL
  \<^verbatim>\<open>NULL\<close>), or whatever the driver makes of anything else.\<close>

definition sql_text :: "externals \<Rightarrow> json \<Rightarrow> exn + string option" where
  "sql_text X v = (case v of JStr s \<Rightarrow> Inr (Some s) | JNull \<Rightarrow> Inr None | _ \<Rightarrow> sql_param X v)"

text \<open>\<^verbatim>\<open>User.query.filter_by(email=v).first()\<close>; the column is not nullable, so
  \<^verbatim>\<open>None\<close> matches no row.\<close>

definition User_filter_by_email :: "externals \<Rightarrow> database \<Rightarrow> json \<Rightarrow> exn + User option" where
  "User_filter_by_email X db v =
     bind_exn (sql_text X v)
       (\<lambda>p. Inr (case p of None \<Rightarrow> None | Some e \<Rightarrow> find (\<lambda>u. email u = e) (users db)))"

text \<open>\<^verbatim>\<open>PaymentTransaction.query.filter_by(paystack_reference=v).first()\<close>.\<close>

definition PaymentTransaction_filter_by_reference ::
  "externals \<Rightarrow> database \<Rightarrow> json \<Rightarrow> exn + PaymentTransaction option"
where
  "PaymentTransaction_filter_by_reference X db v =
     bind_exn (sql_text X v)
       (\<lambda>p. Inr (case p of None \<Rightarrow> None
                  | Some r \<Rightarrow> find (\<lambda>t. paystack_reference t = r) (payment_transactions db)))"

text \<open>The insertion of a row built by \<^verbatim>\<open>PaymentTransaction(...)\<close>, at commit. The column
  \<^verbatim>\<open>paystack_reference\<close> is declared \<^verbatim>\<open>unique=True, nullable=False\<close>: a missing
  reference and a reference already in the table raise \<^verbatim>\<open>IntegrityError\<close>, and
  nothing of the commit is stored. \<^verbatim>\<open>currency\<close> takes its default.\<close>

definition insert_payment ::
  "externals \<Rightarrow> database \<Rightarrow> string \<Rightarrow> json \<Rightarrow> int \<Rightarrow> string \<Rightarrow> json \<Rightarrow> exn + database"
where
  "insert_payment X db uid reference amt st plan =
     bind_exn (sql_text X reference) (\<lambda>r.
     bind_exn (sql_text X plan) (\<lambda>p.
       case r of
         None \<Rightarrow> Inl IntegrityError
       | Some ref \<Rightarrow>
           if ref \<in> set (map paystack_reference (payment_transactions db))
           then Inl IntegrityError
           else Inr (db\<lparr>payment_transactions := payment_transactions db @
                  [\<lparr>user_id = uid, paystack_reference = ref, amount = amt,
                    currency = ''USD'', status = st, plan_type = p\<rparr>]\<rparr>)))"

section \<open>The webhook handler of \<^verbatim>\<open>paystack_integration.py\<close>\<close>

definition status_dict :: "string \<Rightarrow> string \<Rightarrow> json" where
  "status_dict st message = JObj [(''status'', JStr st), (''message'', JStr message)]"

text \<open>The branch \<^verbatim>\<open>if event == 'charge.success'\<close> of \<^verbatim>\<open>handle_paystack_webhook\<close>, on
  the payload's \<^verbatim>\<open>data\<close>. The user is looked up by the customer's email, and the ledger is
  not read: a row is built for the reference and inserted. When no user has the email the
  function falls through to its final \<^verbatim>\<open>return {"status": "processed"}\<close>.\<close>

definition charge_success ::
  "externals \<Rightarrow> json \<Rightarrow> datetime \<Rightarrow> database \<Rightarrow> exn + json \<times> database"
where
  "charge_success X data utcnow db =
     bind_exn (py_get data ''reference'' JNull) (\<lambda>reference.
     bind_exn (py_get data ''customer'' (JObj [])) (\<lambda>customer.
     bind_exn (py_get customer ''email'' JNull) (\<lambda>customer_email.
     bind_exn (py_get data ''amount'' (JInt 0)) (\<lambda>minor.
     bind_exn (py_div_100 minor) (\<lambda>amt.
     bind_exn (py_get data ''metadata'' (JObj [])) (\<lambda>metadata.
     bind_exn (py_get metadata ''plan_type'' (JStr ''monthly'')) (\<lambda>plan.
     bind_exn (User_filter_by_email X db customer_email) (\<lambda>user.
     case user of
       None \<Rightarrow> Inr (JObj [(''status'', JStr ''processed'')], db)
     | Some u \<Rightarrow>
         bind_exn (insert_payment X db (id' u) reference amt ''completed'' plan) (\<lambda>db1.
         let expires = (if plan = JStr ''annual'' then utcnow + timedelta 365
                        else utcnow + timedelta 30)
         in Inr (status_dict ''success'' ''Subscription activated'',
                 db1\<lparr>users := update_first (\<lambda>x. email x = email u)
                        (\<lambda>x. x\<lparr>subscription_type := ''premium'',
                                subscription_expires := Some expires\<rparr>)
                        (users db1)\<rparr>))))))))))"

text \<open>The branch \<^verbatim>\<open>elif event == 'charge.failed'\<close>: the status is assigned whenever a
  transaction with the reference is found.\<close>

definition charge_failed :: "externals \<Rightarrow> json \<Rightarrow> database \<Rightarrow> exn + json \<times> database" where
  "charge_failed X data db =
     bind_exn (py_get data ''reference'' JNull) (\<lambda>reference.
     bind_exn (PaymentTransaction_filter_by_reference X db reference) (\<lambda>payment.
     case payment of
       None \<Rightarrow> Inr (status_dict ''failed'' ''Payment failed'', db)
     | Some t \<Rightarrow>
         Inr (status_dict ''failed'' ''Payment failed'',
              db\<lparr>payment_transactions :=
                   update_first (\<lambda>x. paystack_reference x = paystack_reference t)
                     (\<lambda>x. x\<lparr>status := ''failed''\<rparr>) (payment_transactions db)\<rparr>)))"

text \<open>The body of the \<^verbatim>\<open>try\<close> of \<^verbatim>\<open>handle_paystack_webhook(webhook_data, signature)\<close>
  together with the final \<^verbatim>\<open>return {"status": "processed"}\<close>. The signature is checked
  against \<^verbatim>\<open>json.dumps\<close> of the decoded payload.\<close>

definition handle_paystack_webhook_body ::
  "externals \<Rightarrow> environ \<Rightarrow> json \<Rightarrow> string option \<Rightarrow> datetime \<Rightarrow> database \<Rightarrow> exn + json \<times> database"
where
  "handle_paystack_webhook_body X env webhook_data signature utcnow db =
     bind_exn (init_paystack_payment env) (\<lambda>self.
     let payload = json_dumps webhook_data in
     bind_exn (verify_webhook_signature X self payload signature) (\<lambda>verified.
     if \<not> verified then Inr (status_dict ''error'' ''Invalid signature'', db)
     else
     bind_exn (py_get webhook_data ''event'' JNull) (\<lambda>event.
     bind_exn (py_get webhook_data ''data'' (JObj [])) (\<lambda>data.
     if event = JStr ''charge.success'' then charge_success X data utcnow db
     else if event = JStr ''charge.failed'' then charge_failed X data db
     else Inr (JObj [(''status'', JStr ''processed'')], db)))))"

text \<open>\<^verbatim>\<open>except Exception as e: return {"status": "error", "message": str(e)}\<close>: nothing
  was committed, so the stored state is the one before the call.\<close>

definition handle_paystack_webhook ::
  "externals \<Rightarrow> environ \<Rightarrow> json \<Rightarrow> string option \<Rightarrow> datetime \<Rightarrow> database \<Rightarrow> exn + json \<times> database"
where
  "handle_paystack_webhook X env webhook_data signature utcnow db =
     (case handle_paystack_webhook_body X env webhook_data signature utcnow db of
        Inl e \<Rightarrow> Inr (status_dict ''error'' (str_exn X e), db)
      | Inr r \<Rightarrow> Inr r)"

section \<open>The payment routes of \<^verbatim>\<open>app.py\<close>\<close>

text \<open>
  A view function returns \<^verbatim>\<open>jsonify(body)\<close> with a status code (200 when none is
  given) or a rendered template with one keyword flag; \<open>Login_required\<close> is the answer of
  the \<^verbatim>\<open>login_required\<close> decorator to a caller who is not a stored user. \<open>Inl e\<close> is an
  exception that leaves the view function. A webhook request is read through its
  signature header, its raw body (\<^verbatim>\<open>request.get_data()\<close>) and its decoded body
  (\<^verbatim>\<open>request.get_json()\<close>). The decoding is the framework's and is not modelled: the
  record gives both, and no theorem relies on a request whose two bodies disagree.
\<close>

datatype response =
    Jsonify json nat
  | Render_template string string
  | Login_required

record request =
  X_Paystack_Signature :: "string option"
  get_data :: string
  get_json :: json

definition error_body :: "string \<Rightarrow> json" where
  "error_body message = JObj [(''error'', JStr message)]"

text \<open>\<^verbatim>\<open>r.get('status') and r['data']['status'] == 'success'\<close>, the test both polling
  routes apply to the gateway's answer.\<close>

definition reports_success :: "json \<Rightarrow> exn + bool" where
  "reports_success r =
     bind_exn (py_get r ''status'' JNull) (\<lambda>st.
     if truthy st
     then bind_exn (py_getitem r ''data'') (\<lambda>d.
          bind_exn (py_getitem d ''status'') (\<lambda>s. Inr (s = JStr ''success'')))
     else Inr False)"


text \<open>The two writes of a successful reconciliation in the routes: the status of the
  transaction that was found, and the subscription of the user object the route holds
  (\<^verbatim>\<open>payment.user\<close> or \<^verbatim>\<open>current_user\<close>, the first row with the given primary key).\<close>

definition complete_payment ::
  "(PaymentTransaction \<Rightarrow> bool) \<Rightarrow> string \<Rightarrow> PaymentTransaction \<Rightarrow> datetime \<Rightarrow> database \<Rightarrow> database"
where
  "complete_payment filter_payment uid payment utcnow db =
     db\<lparr>payment_transactions :=
          update_first filter_payment (\<lambda>t. t\<lparr>status := ''completed''\<rparr>) (payment_transactions db),
        users :=
          update_first (\<lambda>u. id' u = uid)
            (\<lambda>u. u\<lparr>subscription_type := ''premium'',
                    subscription_expires :=
                      Some (utcnow + timedelta (if plan_type payment = Some ''annual'' then 365 else 30))\<rparr>)
            (users db)\<rparr>"

text \<open>\<^verbatim>\<open>payment_success()\<close>, with \<^verbatim>\<open>request.args.get('reference')\<close> as \<open>reference\<close>. The
  route has no \<^verbatim>\<open>try\<close>; \<^verbatim>\<open>payment.user\<close> is \<^verbatim>\<open>None\<close> when no user row has the
  transaction's \<^verbatim>\<open>user_id\<close>, and the assignment to its attribute then raises.\<close>

definition payment_success ::
  "externals \<Rightarrow> environ \<Rightarrow> string option \<Rightarrow> datetime \<Rightarrow> database \<Rightarrow> exn + response \<times> database"
where
  "payment_success X env reference utcnow db =
     (case reference of
        None \<Rightarrow> Inr (Render_template ''index.html'' ''payment_error'', db)
      | Some r \<Rightarrow>
          if r = [] then Inr (Render_template ''index.html'' ''payment_error'', db)
          else
          (case paystack env of
             None \<Rightarrow> Inr (Render_template ''index.html'' ''payment_error'', db)
           | Some self \<Rightarrow>
               bind_exn (verify_transaction X self r) (\<lambda>verification.
               bind_exn (reports_success verification) (\<lambda>ok.
               if ok then
                 (case find (\<lambda>t. paystack_reference t = r) (payment_transactions db) of
                    None \<Rightarrow> Inr (Render_template ''index.html'' ''payment_success'', db)
                  | Some payment \<Rightarrow>
                      (case find (\<lambda>u. id' u = user_id payment) (users db) of
                         None \<Rightarrow> Inl AttributeError
                       | Some owner \<Rightarrow>
                           Inr (Render_template ''index.html'' ''payment_success'',
                                complete_payment (\<lambda>t. paystack_reference t = r)
                                  (user_id payment) payment utcnow db)))
               else Inr (Render_template ''index.html'' ''payment_error'', db)))))"

text \<open>The body \<^verbatim>\<open>verify_payment\<close> answers with after the commit: the subscription type and
  the expiry it has just assigned.\<close>

definition activated :: "externals \<Rightarrow> datetime \<Rightarrow> json" where
  "activated X expires =
     JObj [(''message'', JStr ''Payment verified and subscription activated!''),
           (''subscription_type'', JStr ''premium''),
           (''expires'', JStr (isoformat X expires))]"

text \<open>\<^verbatim>\<open>verify_payment(reference)\<close>, called by the logged-in user \<open>cu\<close>.\<close>

definition verify_payment ::
  "externals \<Rightarrow> environ \<Rightarrow> string \<Rightarrow> string \<Rightarrow> datetime \<Rightarrow> database \<Rightarrow> exn + response \<times> database"
where
  "verify_payment X env cu reference utcnow db =
     (case find (\<lambda>u. id' u = cu) (users db) of
        None \<Rightarrow> Inr (Login_required, db)
      | Some current_user \<Rightarrow>
     (case paystack env of
        None \<Rightarrow> Inr (Jsonify (error_body ''Payment system not configured'') 500, db)
      | Some self \<Rightarrow>
          (let attempt =
                 bind_exn (verify_transaction X self reference) (\<lambda>resp.
                 bind_exn (reports_success resp) (\<lambda>ok.
                 if ok then
                   (case find (\<lambda>t. paystack_reference t = reference \<and> user_id t = id' current_user)
                           (payment_transactions db) of
                      None \<Rightarrow> Inr (Jsonify (error_body ''Payment verification failed'') 400, db)
                    | Some payment \<Rightarrow>
                        Inr (Jsonify (activated X (utcnow + timedelta
                               (if plan_type payment = Some ''annual'' then 365 else 30))) 200,
                             complete_payment
                               (\<lambda>t. paystack_reference t = reference \<and> user_id t = id' current_user)
                               (id' current_user) payment utcnow db))
                 else Inr (Jsonify (error_body ''Payment verification failed'') 400, db)))
           in case attempt of
                Inl e \<Rightarrow> Inr (Jsonify (error_body ''Payment verification failed'') 500, db)
              | Inr r \<Rightarrow> Inr r)))"

text \<open>\<^verbatim>\<open>paystack_webhook()\<close>, the first view function registered for
  \<^verbatim>\<open>/api/payment/webhook\<close>. It reads the raw body, but asks the client for a method the
  class does not have, inside \<^verbatim>\<open>try ... except Exception\<close>.\<close>

definition paystack_webhook ::
  "externals \<Rightarrow> environ \<Rightarrow> request \<Rightarrow> datetime \<Rightarrow> database \<Rightarrow> exn + response \<times> database"
where
  "paystack_webhook X env req utcnow db =
     (case paystack env of
        None \<Rightarrow> Inr (Jsonify (error_body ''Payment system not configured'') 500, db)
      | Some self \<Rightarrow>
          (let signature = X_Paystack_Signature req;
               payload = get_data req;
               attempt =
                 bind_exn (verify_webhook self payload signature) (\<lambda>verified.
                 if verified then
                   bind_exn (py_getitem (get_json req) ''event'') (\<lambda>event.
                   if event = JStr ''charge.success'' then
                     bind_exn (py_getitem (get_json req) ''data'') (\<lambda>d.
                     bind_exn (py_getitem d ''reference'') (\<lambda>reference.
                     bind_exn (PaymentTransaction_filter_by_reference X db reference) (\<lambda>found.
                     case found of
                       None \<Rightarrow> Inr (Jsonify (error_body ''Invalid webhook'') 400, db)
                     | Some payment \<Rightarrow>
                         (case find (\<lambda>u. id' u = user_id payment) (users db) of
                            None \<Rightarrow> Inl AttributeError
                          | Some owner \<Rightarrow>
                              Inr (Jsonify (JObj [(''status'', JStr ''success'')]) 200,
                                   complete_payment
                                     (\<lambda>t. paystack_reference t = paystack_reference payment)
                                     (user_id payment) payment utcnow db)))))
                   else Inr (Jsonify (error_body ''Invalid webhook'') 400, db))
                 else Inr (Jsonify (error_body ''Invalid webhook'') 400, db))
           in case attempt of
                Inl e \<Rightarrow> Inr (Jsonify (error_body ''Webhook processing failed'') 500, db)
              | Inr r \<Rightarrow> Inr r))"

text \<open>\<^verbatim>\<open>payment_webhook()\<close>, the second view function for the same URL: it hands the
  decoded body to \<^verbatim>\<open>handle_paystack_webhook\<close> and answers \<^verbatim>\<open>jsonify(result)\<close>.\<close>

definition payment_webhook ::
  "externals \<Rightarrow> environ \<Rightarrow> request \<Rightarrow> datetime \<Rightarrow> database \<Rightarrow> exn + response \<times> database"
where
  "payment_webhook X env req utcnow db =
     (case paystack env of
        None \<Rightarrow> Inr (Jsonify (error_body ''Payment system not configured'') 500, db)
      | Some self \<Rightarrow>
          (case handle_paystack_webhook X env (get_json req) (X_Paystack_Signature req) utcnow db of
             Inl e \<Rightarrow> Inr (Jsonify (error_body ''Webhook processing failed'') 500, db)
           | Inr (result, db1) \<Rightarrow> Inr (Jsonify result 200, db1)))"

text \<open>The URL \<^verbatim>\<open>/api/payment/webhook\<close> is registered twice, for \<^verbatim>\<open>paystack_webhook\<close>
  (line 475) and for \<^verbatim>\<open>payment_webhook\<close> (line 552), with the same method. A request is
  served by the view registered first.\<close>

definition webhook_views ::
  "(externals \<Rightarrow> environ \<Rightarrow> request \<Rightarrow> datetime \<Rightarrow> database \<Rightarrow> exn + response \<times> database) list"
where
  "webhook_views = [paystack_webhook, payment_webhook]"

definition post_api_payment_webhook ::
  "externals \<Rightarrow> environ \<Rightarrow> request \<Rightarrow> datetime \<Rightarrow> database \<Rightarrow> exn + response \<times> database"
where
  "post_api_payment_webhook X env req utcnow db =
     (case webhook_views of
        [] \<Rightarrow> Inr (Jsonify (error_body ''Not Found'') 404, db)
      | view # later \<Rightarrow> view X env req utcnow db)"

section \<open>Reading a webhook payload\<close>

text \<open>The fields \<^verbatim>\<open>handle_paystack_webhook\<close> reads from a payload, with the defaults of
  its \<^verbatim>\<open>get\<close> calls; the theorems name a payload's event, reference, customer email
  and plan type through them.\<close>

definition webhook_event :: "json \<Rightarrow> exn + json" where
  "webhook_event webhook_data = py_get webhook_data ''event'' JNull"

definition webhook_reference :: "json \<Rightarrow> exn + json" where
  "webhook_reference webhook_data =
     bind_exn (py_get webhook_data ''data'' (JObj [])) (\<lambda>data. py_get data ''reference'' JNull)"

definition webhook_email :: "json \<Rightarrow> exn + json" where
  "webhook_email webhook_data =
     bind_exn (py_get webhook_data ''data'' (JObj [])) (\<lambda>data.
     bind_exn (py_get data ''customer'' (JObj [])) (\<lambda>customer. py_get customer ''email'' JNull))"

definition webhook_amount :: "json \<Rightarrow> exn + int" where
  "webhook_amount webhook_data =
     bind_exn (py_get webhook_data ''data'' (JObj [])) (\<lambda>data.
     bind_exn (py_get data ''amount'' (JInt 0)) py_div_100)"

definition webhook_plan_type :: "json \<Rightarrow> exn + json" where
  "webhook_plan_type webhook_data =
     bind_exn (py_get webhook_data ''data'' (JObj [])) (\<lambda>data.
     bind_exn (py_get data ''metadata'' (JObj [])) (\<lambda>metadata.
       py_get metadata ''plan_type'' (JStr ''monthly'')))"

text \<open>What a reconciliation may do to the ledger: every stored row is as before or has
  only its status set, to \<^verbatim>\<open>completed\<close> or to \<^verbatim>\<open>failed\<close>; rows may be appended.\<close>

definition status_writes_only :: "PaymentTransaction list \<Rightarrow> PaymentTransaction list \<Rightarrow> bool" where
  "status_writes_only before after =
     (length before \<le> length after \<and>
      list_all2 (\<lambda>t t'. t' = t \<or> t' = t\<lparr>status := ''completed''\<rparr> \<or> t' = t\<lparr>status := ''failed''\<rparr>)
        before (take (length before) after))"

text \<open>The subscription write of a reconciliation taken alone: the user object with
  primary key \<open>uid\<close> becomes premium with the given expiry.\<close>

definition upgrade :: "string \<Rightarrow> datetime \<Rightarrow> database \<Rightarrow> database" where
  "upgrade uid expires db =
     db\<lparr>users := update_first (\<lambda>u. id' u = uid)
            (\<lambda>u. u\<lparr>subscription_type := ''premium'', subscription_expires := Some expires\<rparr>)
            (users db)\<rparr>"

text \<open>The days a stored transaction's plan buys.\<close>

definition plan_days :: "PaymentTransaction \<Rightarrow> int" where
  "plan_days t = (if plan_type t = Some ''annual'' then 365 else 30)"

section \<open>Sample values\<close>

text \<open>
  Concrete runs need concrete values of the outside world. In \<open>X0\<close> the keyed digest is a
  stand-in (the decimal length of key and message); the gateway confirms every reference
  it is asked about and accepts every initialization, echoing the reference. The theorems
  are proved for every \<open>externals\<close>; \<open>X0\<close> only serves the concrete runs.
\<close>

definition gateway_success :: json where
  "gateway_success =
     JObj [(''status'', JBool True),
           (''data'', JObj [(''status'', JStr ''success''), (''amount'', JInt 17982)])]"

definition echo_reference :: "json \<Rightarrow> http_outcome" where
  "echo_reference body =
     (case py_getitem body ''reference'' of
        Inl e \<Rightarrow> Response 400 (Some (JObj [(''status'', JBool False)]))
      | Inr r \<Rightarrow> Response 200 (Some (JObj [(''status'', JBool True),
                                           (''data'', JObj [(''reference'', r)])])))"

definition X0 :: externals where
  "X0 = \<lparr>hmac_sha512_hexdigest = (\<lambda>key msg. str_nat (length key + length msg)),
         hash = (\<lambda>s. int (length s)),
         str_exn = (\<lambda>e. ''error''),
         str_json = json_dumps,
         isoformat = str_int,
         requests_get = (\<lambda>url hs. Response 200 (Some gateway_success)),
         requests_post = (\<lambda>url hs body. echo_reference body),
         JSONDecodeError_is_RequestException = True,
         sql_param = (\<lambda>v. Inl DriverError),
         zar_cents = (\<lambda>a. a * 18)\<rparr>"




text \<open>The client \<^verbatim>\<open>init_paystack_payment\<close> builds under \<open>env0\<close>, and a clock reading.\<close>

definition client0 :: PaystackPayment where
  "client0 = \<lparr>public_key = ''pk_test'', secret_key = ''sk_test'',
               base_url = ''https://api.paystack.co''\<rparr>"

definition clock0 :: clock_reading where
  "clock0 = \<lparr>year = 2024, month = 1, day = 2, hour = 3, minute = 4, second = 5, microsecond = 6\<rparr>"

definition env0 :: environ where
  "env0 = \<lparr>PAYSTACK_PUBLIC_KEY = Some ''pk_test'', PAYSTACK_SECRET_KEY = Some ''sk_test''\<rparr>"

text \<open>One user and one monthly transaction \<^verbatim>\<open>R1\<close> of theirs, in a given state.\<close>

definition sample_db :: "string \<Rightarrow> string \<Rightarrow> datetime option \<Rightarrow> database" where
  "sample_db st sub expires =
     \<lparr>users = [\<lparr>id' = ''u1'', email = ''user@x.com'', subscription_type = sub,
                  subscription_expires = expires\<rparr>],
       payment_transactions =
         [\<lparr>user_id = ''u1'', paystack_reference = ''R1'', amount = 999, currency = ''USD'',
            status = st, plan_type = Some ''monthly''\<rparr>]\<rparr>"

text \<open>A database without rows.\<close>

definition empty_db :: database where
  "empty_db = \<lparr>users = [], payment_transactions = []\<rparr>"

text \<open>A webhook payload for an event, a reference and a customer email, with no
  metadata; and the signature header the handler accepts for a payload under \<open>env0\<close>.\<close>

definition sample_webhook :: "string \<Rightarrow> string \<Rightarrow> string \<Rightarrow> json" where
  "sample_webhook event reference customer_email =
     JObj [(''event'', JStr event),
           (''data'', JObj [(''reference'', JStr reference), (''amount'', JInt 17982),
                            (''customer'', JObj [(''email'', JStr customer_email)])])]"

definition signed :: "externals \<Rightarrow> json \<Rightarrow> string option" where
  "signed X webhook_data = Some (hmac_sha512_hexdigest X ''sk_test'' (json_dumps webhook_data))"

text \<open>The bytes of a delivery as the provider may send it,
  \<^verbatim>\<open>{"event": "charge.failed"}\<close> with a space after the colon, and what
  \<^verbatim>\<open>request.get_json()\<close> decodes them to; and a request with this body under a signature
  header that is not its digest.\<close>

definition spaced_body :: string where
  "spaced_body = ''{'' @ [CHR 0x22] @ ''event'' @ [CHR 0x22] @ '': '' @ [CHR 0x22] @
                 ''charge.failed'' @ [CHR 0x22] @ ''}''"

definition spaced_decoded :: json where
  "spaced_decoded = JObj [(''event'', JStr ''charge.failed'')]"

definition forged_delivery :: request where
  "forged_delivery =
     \<lparr>X_Paystack_Signature = Some ''00'',
       get_data = spaced_body,
       get_json = JObj [(''event'', JStr ''charge.failed'')]\<rparr>"

section \<open>Rows found and rows written\<close>

lemma find_Some_P: "find P xs = Some x \<Longrightarrow> P x"
  by (induction xs) (auto split: if_splits)

lemma find_Some_set: "find P xs = Some x \<Longrightarrow> x \<in> set xs"
  by (induction xs) (auto split: if_splits)

lemma find_weaker_None:
  assumes "find P xs = None" "find (\<lambda>x. P x \<and> Q x) xs = Some x"
  shows False
  using assms find_Some_set[OF assms(2)] find_Some_P[OF assms(2)]
  by (auto simp: find_None_iff)

lemma find_update_first:
  "find P xs = Some x \<Longrightarrow> P (f x) \<Longrightarrow> find P (update_first P f xs) = Some (f x)"
  by (induction xs) (auto split: if_splits)

lemma update_first_none:
  "find P xs = None \<Longrightarrow> update_first P f xs = xs"
  by (induction xs) (auto split: if_splits)

lemma update_first_eq_iff:
  "find P xs = Some x \<Longrightarrow> (update_first P f xs = xs) = (f x = x)"
  by (induction xs) (auto split: if_splits)

lemma update_first_map:
  "(\<And>x. g (f x) = g x) \<Longrightarrow> map g (update_first P f xs) = map g xs"
  by (induction xs) auto

lemma update_first_all2:
  "list_all2 (\<lambda>t t'. t' = t \<or> t' = f t) xs (update_first P f xs)"
  by (induction xs) (auto simp: list_all2_refl)

lemma complete_payment_upgrade:
  "complete_payment P uid t now db =
     upgrade uid (now + timedelta (plan_days t))
       (db\<lparr>payment_transactions :=
             update_first P (\<lambda>t. t\<lparr>status := ''completed''\<rparr>) (payment_transactions db)\<rparr>)"
  by (simp add: complete_payment_def upgrade_def plan_days_def)

lemma bind_exn_Inr: "(bind_exn m f = Inr y) = (\<exists>x. m = Inr x \<and> f x = Inr y)"
  by (cases m) (simp_all add: bind_exn_def)

section \<open>The polling routes, case by case\<close>

lemma verify_payment_cases:
  assumes "verify_payment X env cu R now db = Inr (resp, db')"
  shows "(db' = db \<and> (\<forall>b. resp \<noteq> Jsonify b 200)) \<or>
         (\<exists>u t self v. find (\<lambda>u. id' u = cu) (users db) = Some u \<and> paystack env = Some self \<and>
            verify_transaction X self R = Inr v \<and> reports_success v = Inr True \<and>
            find (\<lambda>t. paystack_reference t = R \<and> user_id t = cu) (payment_transactions db) = Some t \<and>
            resp = Jsonify (activated X (now + timedelta (plan_days t))) 200 \<and>
            db' = complete_payment (\<lambda>t. paystack_reference t = R \<and> user_id t = cu) cu t now db)"
  using assms
  by (auto simp: verify_payment_def Let_def bind_exn_def error_body_def plan_days_def
        dest: find_Some_P split: option.splits sum.splits if_splits)

lemma verify_payment_run:
  assumes "find (\<lambda>u. id' u = cu) (users db) = Some u" "paystack env = Some self"
     "verify_transaction X self R = Inr v" "reports_success v = Inr True"
     "find (\<lambda>t. paystack_reference t = R \<and> user_id t = cu) (payment_transactions db) = Some t"
  shows "verify_payment X env cu R now db =
     Inr (Jsonify (activated X (now + timedelta (plan_days t))) 200,
          complete_payment (\<lambda>t. paystack_reference t = R \<and> user_id t = cu) cu t now db)"
  using assms find_Some_P[OF assms(1)]
  by (simp add: verify_payment_def Let_def bind_exn_def plan_days_def)

lemma verify_payment_again:
  assumes first: "verify_payment X env cu R now1 db = Inr (Jsonify b 200, db1)"
  shows "\<exists>t. find (\<lambda>t. paystack_reference t = R \<and> user_id t = cu) (payment_transactions db1) = Some t
           \<and> status t = ''completed''
           \<and> verify_payment X env cu R now2 db1 =
               Inr (Jsonify (activated X (now2 + timedelta (plan_days t))) 200,
                    upgrade cu (now2 + timedelta (plan_days t)) db1)
           \<and> (upgrade cu (now2 + timedelta (plan_days t)) db1 = db1) = (now2 = now1)"
proof -
  let ?P = "\<lambda>t. paystack_reference t = R \<and> user_id t = cu"
  let ?Q = "\<lambda>u. id' u = cu"
  let ?done = "\<lambda>t. t\<lparr>status := ''completed''\<rparr>"
  from verify_payment_cases[OF first]
  obtain u t self v where
    u: "find ?Q (users db) = Some u" and p: "paystack env = Some self" and
    v: "verify_transaction X self R = Inr v" and ok: "reports_success v = Inr True" and
    t: "find ?P (payment_transactions db) = Some t" and
    db1: "db1 = complete_payment ?P cu t now1 db"
    by auto
  let ?e1 = "now1 + timedelta (plan_days t)"
  let ?e2 = "now2 + timedelta (plan_days t)"
  let ?set = "\<lambda>e u. u\<lparr>subscription_type := ''premium'', subscription_expires := Some e\<rparr>"
  have days: "plan_days (?done t) = plan_days t"
    by (simp add: plan_days_def)
  have t1: "find ?P (payment_transactions db1) = Some (?done t)"
    unfolding db1 complete_payment_def using find_update_first[OF t, of ?done] find_Some_P[OF t]
    by simp
  have u1: "find ?Q (users db1) = Some (?set ?e1 u)"
    unfolding db1 complete_payment_def
    using find_update_first[OF u, of "?set ?e1"] find_Some_P[OF u]
    by (simp add: plan_days_def)
  have ledger: "update_first ?P ?done (payment_transactions db1) = payment_transactions db1"
    using update_first_eq_iff[OF t1, of ?done] by simp
  have run: "verify_payment X env cu R now2 db1 =
     Inr (Jsonify (activated X ?e2) 200, complete_payment ?P cu (?done t) now2 db1)"
    using verify_payment_run[OF u1 p v ok t1, of now2] days by simp
  have shape: "complete_payment ?P cu (?done t) now2 db1 = upgrade cu ?e2 db1"
    using ledger days by (simp add: complete_payment_upgrade)
  have same: "(upgrade cu ?e2 db1 = db1) = (now2 = now1)"
  proof -
    have "(upgrade cu ?e2 db1 = db1) = (update_first ?Q (?set ?e2) (users db1) = users db1)"
      unfolding upgrade_def by (cases db1) auto
    also have "\<dots> = (?set ?e2 (?set ?e1 u) = ?set ?e1 u)"
      by (rule update_first_eq_iff[OF u1])
    also have "\<dots> = (now2 = now1)"
      by (cases u) auto
    finally show ?thesis .
  qed
  show ?thesis
    using t1 run shape same days by (intro exI[of _ "?done t"]) simp
qed

lemma verify_payment_total:
  "\<exists>resp db'. verify_payment X env cu R now db = Inr (resp, db')"
  by (auto simp: verify_payment_def Let_def bind_exn_def split: option.splits sum.splits)

lemma verify_payment_unknown_reference:
  assumes "find (\<lambda>t. paystack_reference t = R) (payment_transactions db) = None"
  shows "\<exists>resp. verify_payment X env cu R now db = Inr (resp, db) \<and> (\<forall>b. resp \<noteq> Jsonify b 200)"
proof -
  obtain resp db' where run: "verify_payment X env cu R now db = Inr (resp, db')"
    using verify_payment_total by blast
  from verify_payment_cases[OF run] find_weaker_None[OF assms, of "\<lambda>t. user_id t = cu"]
  have "db' = db \<and> (\<forall>b. resp \<noteq> Jsonify b 200)" by blast
  with run show ?thesis by blast
qed

lemma payment_success_cases:
  assumes "payment_success X env reference now db = Inr (resp, db')"
  shows "db' = db \<or>
    (\<exists>r self v t owner. reference = Some r \<and> paystack env = Some self \<and>
        verify_transaction X self r = Inr v \<and> reports_success v = Inr True \<and>
        find (\<lambda>t. paystack_reference t = r) (payment_transactions db) = Some t \<and>
        find (\<lambda>u. id' u = user_id t) (users db) = Some owner \<and>
        resp = Render_template ''index.html'' ''payment_success'' \<and>
        db' = complete_payment (\<lambda>t. paystack_reference t = r) (user_id t) t now db)"
  using assms
  by (auto simp: payment_success_def bind_exn_def split: option.splits sum.splits if_splits)

lemma payment_success_unknown_reference:
  assumes "find (\<lambda>t. paystack_reference t = R) (payment_transactions db) = None"
    and "payment_success X env (Some R) now db = Inr (resp, db')"
  shows "db' = db"
  using payment_success_cases[OF assms(2)] assms(1) by auto

lemma paystack_webhook_fails:
  "\<exists>b. paystack_webhook X env req now db = Inr (Jsonify b 500, db)"
  by (simp add: paystack_webhook_def verify_webhook_def bind_exn_def split: option.splits)

section \<open>The webhook handler, case by case\<close>

lemma insert_payment_Inr:
  assumes "insert_payment X db uid ref amt st plan = Inr db1"
  shows "\<exists>r p. sql_text X ref = Inr (Some r) \<and> sql_text X plan = Inr p \<and>
           r \<notin> set (map paystack_reference (payment_transactions db)) \<and>
           db1 = db\<lparr>payment_transactions := payment_transactions db @
                  [\<lparr>user_id = uid, paystack_reference = r, amount = amt,
                    currency = ''USD'', status = st, plan_type = p\<rparr>]\<rparr>"
  using assms
  by (auto simp: insert_payment_def bind_exn_def split: sum.splits option.splits if_splits)

lemma insert_payment_users:
  "insert_payment X db uid ref amt st plan = Inr db1 \<Longrightarrow> users db1 = users db"
  by (drule insert_payment_Inr) auto

lemma User_filter_by_email_Some:
  assumes "User_filter_by_email X db v = Inr (Some u)"
  shows "sql_text X v = Inr (Some (email u)) \<and> find (\<lambda>x. email x = email u) (users db) = Some u"
proof -
  from assms obtain e where e: "sql_text X v = Inr (Some e)" "find (\<lambda>x. email x = e) (users db) = Some u"
    by (auto simp: User_filter_by_email_def bind_exn_def split: sum.splits option.splits)
  from find_Some_P[OF e(2)] have "email u = e" .
  with e show ?thesis by simp
qed

lemma charge_success_cases:
  assumes "charge_success X data now db = Inr (res, db')"
  obtains (nobody) "db' = db" "res = JObj [(''status'', JStr ''processed'')]"
  | (activated) ref customer em amt metadata plan u db1 where
      "py_get data ''reference'' JNull = Inr ref"
      "py_get data ''customer'' (JObj []) = Inr customer"
      "py_get customer ''email'' JNull = Inr em"
      "py_get data ''metadata'' (JObj []) = Inr metadata"
      "py_get metadata ''plan_type'' (JStr ''monthly'') = Inr plan"
      "User_filter_by_email X db em = Inr (Some u)"
      "insert_payment X db (id' u) ref amt ''completed'' plan = Inr db1"
      "res = status_dict ''success'' ''Subscription activated''"
      "db' = db1\<lparr>users := update_first (\<lambda>x. email x = email u)
                 (\<lambda>x. x\<lparr>subscription_type := ''premium'',
                         subscription_expires :=
                           Some (now + timedelta (if plan = JStr ''annual'' then 365 else 30))\<rparr>)
                 (users db1)\<rparr>"
proof -
  from assms obtain ref customer em minor amt metadata plan user where
    s: "py_get data ''reference'' JNull = Inr ref"
      "py_get data ''customer'' (JObj []) = Inr customer"
      "py_get customer ''email'' JNull = Inr em"
      "py_get data ''metadata'' (JObj []) = Inr metadata"
      "py_get metadata ''plan_type'' (JStr ''monthly'') = Inr plan"
      "User_filter_by_email X db em = Inr user"
    and rest: "(case user of
       None \<Rightarrow> Inr (JObj [(''status'', JStr ''processed'')], db)
     | Some u \<Rightarrow>
         bind_exn (insert_payment X db (id' u) ref amt ''completed'' plan) (\<lambda>db1.
         let expires = (if plan = JStr ''annual'' then now + timedelta 365
                        else now + timedelta 30)
         in Inr (status_dict ''success'' ''Subscription activated'',
                 db1\<lparr>users := update_first (\<lambda>x. email x = email u)
                        (\<lambda>x. x\<lparr>subscription_type := ''premium'',
                                subscription_expires := Some expires\<rparr>)
                        (users db1)\<rparr>))) = Inr (res, db')"
    unfolding charge_success_def bind_exn_Inr by blast
  show thesis
  proof (cases user)
    case None
    with rest show thesis by (intro nobody) auto
  next
    case (Some u)
    with rest obtain db1 where
      ins: "insert_payment X db (id' u) ref amt ''completed'' plan = Inr db1"
      and out: "res = status_dict ''success'' ''Subscription activated''"
        "db' = db1\<lparr>users := update_first (\<lambda>x. email x = email u)
                 (\<lambda>x. x\<lparr>subscription_type := ''premium'',
                         subscription_expires :=
                           Some (now + timedelta (if plan = JStr ''annual'' then 365 else 30))\<rparr>)
                 (users db1)\<rparr>"
      by (auto simp: bind_exn_Inr Let_def split: if_splits)
    show thesis
      using s(1-5) s(6)[unfolded Some] ins out by (rule activated)
  qed
qed

lemma charge_failed_cases:
  assumes "charge_failed X data db = Inr (res, db')"
  obtains ref payment where
      "py_get data ''reference'' JNull = Inr ref"
      "PaymentTransaction_filter_by_reference X db ref = Inr payment"
      "res = status_dict ''failed'' ''Payment failed''"
      "db' = (case payment of None \<Rightarrow> db
              | Some t \<Rightarrow> db\<lparr>payment_transactions :=
                   update_first (\<lambda>x. paystack_reference x = paystack_reference t)
                     (\<lambda>x. x\<lparr>status := ''failed''\<rparr>) (payment_transactions db)\<rparr>)"
proof (cases "py_get data ''reference'' JNull")
  case (Inl e)
  with assms show thesis by (simp add: charge_failed_def bind_exn_def)
next
  case ref: (Inr ref)
  show thesis
  proof (cases "PaymentTransaction_filter_by_reference X db ref")
    case (Inl e)
    with assms ref show thesis by (simp add: charge_failed_def bind_exn_def)
  next
    case (Inr payment)
    with assms ref have "res = status_dict ''failed'' ''Payment failed''"
      "db' = (case payment of None \<Rightarrow> db
              | Some t \<Rightarrow> db\<lparr>payment_transactions :=
                   update_first (\<lambda>x. paystack_reference x = paystack_reference t)
                     (\<lambda>x. x\<lparr>status := ''failed''\<rparr>) (payment_transactions db)\<rparr>)"
      by (auto simp: charge_failed_def bind_exn_def split: option.splits)
    with ref Inr show thesis by (rule that)
  qed
qed

lemma handle_paystack_webhook_total:
  "\<exists>res db'. handle_paystack_webhook X env wd sg now db = Inr (res, db')"
  by (cases "handle_paystack_webhook_body X env wd sg now db")
     (auto simp: handle_paystack_webhook_def)

lemma handle_paystack_webhook_cases:
  assumes "handle_paystack_webhook X env wd sg now db = Inr (res, db')"
  obtains (unchanged) "db' = db" "res \<noteq> status_dict ''success'' ''Subscription activated''"
  | (success) self data where
      "init_paystack_payment env = Inr self"
      "verify_webhook_signature X self (json_dumps wd) sg = Inr True"
      "py_get wd ''event'' JNull = Inr (JStr ''charge.success'')"
      "py_get wd ''data'' (JObj []) = Inr data"
      "charge_success X data now db = Inr (res, db')"
  | (failed) self data where
      "init_paystack_payment env = Inr self"
      "verify_webhook_signature X self (json_dumps wd) sg = Inr True"
      "py_get wd ''event'' JNull = Inr (JStr ''charge.failed'')"
      "py_get wd ''data'' (JObj []) = Inr data"
      "charge_failed X data db = Inr (res, db')"
proof (cases "handle_paystack_webhook_body X env wd sg now db")
  case (Inl e)
  with assms show thesis
    by (intro unchanged) (auto simp: handle_paystack_webhook_def status_dict_def)
next
  case (Inr r)
  with assms have body: "handle_paystack_webhook_body X env wd sg now db = Inr (res, db')"
    by (simp add: handle_paystack_webhook_def)
  then obtain self verified where
    i: "init_paystack_payment env = Inr self" and
    v: "verify_webhook_signature X self (json_dumps wd) sg = Inr verified" and
    rest: "(if \<not> verified then Inr (status_dict ''error'' ''Invalid signature'', db)
     else
     bind_exn (py_get wd ''event'' JNull) (\<lambda>event.
     bind_exn (py_get wd ''data'' (JObj [])) (\<lambda>data.
     if event = JStr ''charge.success'' then charge_success X data now db
     else if event = JStr ''charge.failed'' then charge_failed X data db
     else Inr (JObj [(''status'', JStr ''processed'')], db)))) = Inr (res, db')"
    unfolding handle_paystack_webhook_body_def bind_exn_Inr Let_def by blast
  show thesis
  proof (cases verified)
    case False
    with rest show thesis by (intro unchanged) (auto simp: status_dict_def)
  next
    case True
    with rest obtain event data where
      e: "py_get wd ''event'' JNull = Inr event" and d: "py_get wd ''data'' (JObj []) = Inr data" and
      br: "(if event = JStr ''charge.success'' then charge_success X data now db
            else if event = JStr ''charge.failed'' then charge_failed X data db
            else Inr (JObj [(''status'', JStr ''processed'')], db)) = Inr (res, db')"
      by (auto simp: bind_exn_Inr)
    consider "event = JStr ''charge.success''" | "event = JStr ''charge.failed''"
      | "event \<noteq> JStr ''charge.success''" "event \<noteq> JStr ''charge.failed''"
      by blast
    then show thesis
    proof cases
      case 1
      with br e d i v True show thesis by (intro success[of self data]) auto
    next
      case 2
      with br e d i v True show thesis by (intro failed[of self data]) auto
    next
      case 3
      with br show thesis by (intro unchanged) (auto simp: status_dict_def)
    qed
  qed
qed

lemma webhook_email_of_data:
  assumes "webhook_email wd = Inr em" "py_get wd ''data'' (JObj []) = Inr data"
    "py_get data ''customer'' (JObj []) = Inr customer" "py_get customer ''email'' JNull = Inr em'"
  shows "em' = em"
  using assms by (simp add: webhook_email_def bind_exn_def)

lemma webhook_email_of_data':
  assumes "py_get wd ''data'' (JObj []) = Inr data"
    "py_get data ''customer'' (JObj []) = Inr customer" "py_get customer ''email'' JNull = Inr em"
  shows "webhook_email wd = Inr em"
  using assms by (simp add: webhook_email_def bind_exn_def)

lemma handle_users:
  assumes run: "handle_paystack_webhook X env wd sg now db = Inr (res, db')"
  shows "users db' = users db \<or>
    (\<exists>em u e. webhook_email wd = Inr em \<and> User_filter_by_email X db em = Inr (Some u) \<and>
       res = status_dict ''success'' ''Subscription activated'' \<and>
       users db' = update_first (\<lambda>x. email x = email u)
          (\<lambda>x. x\<lparr>subscription_type := ''premium'', subscription_expires := Some e\<rparr>) (users db))"
  using run
proof (cases rule: handle_paystack_webhook_cases)
  case unchanged
  then show ?thesis by simp
next
  case (success self data)
  from success(5) show ?thesis
  proof (cases rule: charge_success_cases)
    case nobody
    then show ?thesis by simp
  next
    case (activated ref customer em amt metadata plan u db1)
    have "webhook_email wd = Inr em"
      using webhook_email_of_data'[OF success(4) activated(2,3)] .
    moreover have "users db1 = users db"
      using insert_payment_users[OF activated(7)] .
    ultimately show ?thesis
      using activated(6,8,9) by auto
  qed
next
  case (failed self data)
  from failed(5) show ?thesis
    by (cases rule: charge_failed_cases) (auto split: option.splits)
qed

lemma insert_payment_duplicate:
  "R \<in> set (map paystack_reference (payment_transactions db)) \<Longrightarrow>
   insert_payment X db uid (JStr R) amt st plan \<noteq> Inr d"
  by (auto simp: insert_payment_def sql_text_def bind_exn_def split: sum.splits json.splits)

lemma handle_duplicate_reference:
  assumes "R \<in> set (map paystack_reference (payment_transactions db))"
    and "webhook_event wd = Inr (JStr ''charge.success'')"
    and "webhook_reference wd = Inr (JStr R)"
  shows "\<exists>res. handle_paystack_webhook X env wd sg now db = Inr (res, db)"
proof (cases "handle_paystack_webhook_body X env wd sg now db")
  case (Inl e)
  then show ?thesis by (simp add: handle_paystack_webhook_def)
next
  case (Inr r)
  obtain res db' where r: "r = (res, db')" by (cases r)
  have "db' = db"
    using Inr assms(2,3) insert_payment_duplicate[OF assms(1)] unfolding r
    by (auto simp: handle_paystack_webhook_body_def charge_success_def webhook_event_def
          webhook_reference_def bind_exn_def Let_def split: sum.splits if_splits option.splits)
  then show ?thesis using Inr r by (simp add: handle_paystack_webhook_def)
qed

lemma paystack_init: "(paystack env = Some self) = (init_paystack_payment env = Inr self)"
  by (cases "init_paystack_payment env") (auto simp: paystack_def)

lemma handle_rejects:
  assumes "init_paystack_payment env = Inr self"
    and "verify_webhook_signature X self (json_dumps wd) sg \<noteq> Inr True"
  shows "\<exists>m. handle_paystack_webhook X env wd sg now db = Inr (status_dict ''error'' m, db)"
proof (cases "verify_webhook_signature X self (json_dumps wd) sg")
  case (Inl e)
  with assms show ?thesis
    by (auto simp: handle_paystack_webhook_def handle_paystack_webhook_body_def bind_exn_def)
next
  case (Inr b)
  with assms have "\<not> b" by auto
  with Inr assms show ?thesis
    by (auto simp: handle_paystack_webhook_def handle_paystack_webhook_body_def bind_exn_def)
qed

lemma digest_mismatch:
  assumes "s \<noteq> hmac_sha512_hexdigest X (secret_key self) payload"
  shows "verify_webhook_signature X self payload (Some s) \<noteq> Inr True"
  using assms by (auto simp: verify_webhook_signature_def Let_def split: if_splits)

lemma payment_webhook_200:
  assumes "paystack env = Some self"
  shows "\<exists>body db'. payment_webhook X env req now db = Inr (Jsonify body 200, db')"
  using assms handle_paystack_webhook_total[of X env "get_json req" "X_Paystack_Signature req" now db]
  by (auto simp: payment_webhook_def)

lemma filter_by_reference_str:
  "PaymentTransaction_filter_by_reference X db (JStr R) =
     Inr (find (\<lambda>t. paystack_reference t = R) (payment_transactions db))"
  by (simp add: PaymentTransaction_filter_by_reference_def sql_text_def bind_exn_def)

lemma webhook_reference_of_data:
  assumes "webhook_reference wd = Inr ref" "py_get wd ''data'' (JObj []) = Inr data"
  shows "py_get data ''reference'' JNull = Inr ref"
  using assms by (simp add: webhook_reference_def bind_exn_def)

lemma charge_failed_run:
  assumes "py_get data ''reference'' JNull = Inr (JStr R)"
  shows "charge_failed X data db =
     Inr (status_dict ''failed'' ''Payment failed'',
          db\<lparr>payment_transactions := update_first (\<lambda>t. paystack_reference t = R)
                (\<lambda>t. t\<lparr>status := ''failed''\<rparr>) (payment_transactions db)\<rparr>)"
proof (cases "find (\<lambda>t. paystack_reference t = R) (payment_transactions db)")
  case None
  then show ?thesis using assms
    by (simp add: charge_failed_def bind_exn_def filter_by_reference_str update_first_none)
next
  case (Some t)
  from find_Some_P[OF Some] have "paystack_reference t = R" .
  with Some show ?thesis using assms
    by (simp add: charge_failed_def bind_exn_def filter_by_reference_str)
qed

lemma handle_failed_run:
  assumes i: "init_paystack_payment env = Inr self"
    and v: "verify_webhook_signature X self (json_dumps wd) sg = Inr True"
    and ev: "webhook_event wd = Inr (JStr ''charge.failed'')"
    and r: "webhook_reference wd = Inr (JStr R)"
  shows "handle_paystack_webhook X env wd sg now db =
     Inr (status_dict ''failed'' ''Payment failed'',
          db\<lparr>payment_transactions := update_first (\<lambda>t. paystack_reference t = R)
                (\<lambda>t. t\<lparr>status := ''failed''\<rparr>) (payment_transactions db)\<rparr>)"
proof -
  from r obtain data where d: "py_get wd ''data'' (JObj []) = Inr data"
    by (cases "py_get wd ''data'' (JObj [])") (auto simp: webhook_reference_def bind_exn_def)
  from webhook_reference_of_data[OF r d] have "py_get data ''reference'' JNull = Inr (JStr R)" .
  from charge_failed_run[OF this, of X db] i v ev d show ?thesis
    by (simp add: handle_paystack_webhook_def handle_paystack_webhook_body_def bind_exn_def
          webhook_event_def)
qed

lemma handle_failed_users:
  assumes ev: "webhook_event wd = Inr (JStr ''charge.failed'')"
    and run: "handle_paystack_webhook X env wd sg now db = Inr (res, db')"
  shows "users db' = users db"
  using run
proof (cases rule: handle_paystack_webhook_cases)
  case unchanged
  then show ?thesis by simp
next
  case (success self data)
  with ev show ?thesis by (simp add: webhook_event_def)
next
  case (failed self data)
  from failed(5) show ?thesis
    by (cases rule: charge_failed_cases) (auto split: option.splits)
qed

section \<open>What reconciliation writes to the ledger\<close>

lemma update_first_length: "length (update_first P f xs) = length xs"
  by (induction xs) auto

lemma status_writes_only_refl: "status_writes_only xs xs"
  by (simp add: status_writes_only_def list_all2_refl)

lemma status_writes_only_completed:
  "status_writes_only xs (update_first P (\<lambda>t. t\<lparr>status := ''completed''\<rparr>) xs)"
  unfolding status_writes_only_def
  by (simp add: update_first_length)
     (rule list_all2_mono[OF update_first_all2], auto)

lemma status_writes_only_failed:
  "status_writes_only xs (update_first P (\<lambda>t. t\<lparr>status := ''failed''\<rparr>) xs)"
  unfolding status_writes_only_def
  by (simp add: update_first_length)
     (rule list_all2_mono[OF update_first_all2], auto)

lemma status_writes_only_append: "status_writes_only xs (xs @ ys)"
  by (simp add: status_writes_only_def list_all2_refl)

lemma verify_payment_ledger:
  assumes "verify_payment X env cu R now db = Inr (resp, db')"
  shows "status_writes_only (payment_transactions db) (payment_transactions db')"
  using verify_payment_cases[OF assms]
  by (auto simp: complete_payment_def status_writes_only_refl status_writes_only_completed)

lemma payment_success_ledger:
  assumes "payment_success X env reference now db = Inr (resp, db')"
  shows "status_writes_only (payment_transactions db) (payment_transactions db')"
  using payment_success_cases[OF assms]
  by (auto simp: complete_payment_def status_writes_only_refl status_writes_only_completed)

lemma paystack_webhook_ledger:
  assumes "paystack_webhook X env req now db = Inr (resp, db')"
  shows "status_writes_only (payment_transactions db) (payment_transactions db')"
  using paystack_webhook_fails[of X env req now db] assms
  by (auto simp: status_writes_only_refl)

lemma handle_ledger:
  assumes run: "handle_paystack_webhook X env wd sg now db = Inr (res, db')"
  shows "status_writes_only (payment_transactions db) (payment_transactions db')"
  using run
proof (cases rule: handle_paystack_webhook_cases)
  case unchanged
  then show ?thesis by (simp add: status_writes_only_refl)
next
  case (success self data)
  from success(5) show ?thesis
  proof (cases rule: charge_success_cases)
    case nobody
    then show ?thesis by (simp add: status_writes_only_refl)
  next
    case (activated ref customer em amt metadata plan u db1)
    from insert_payment_Inr[OF activated(7)] activated(9) show ?thesis
      by (auto simp: status_writes_only_append)
  qed
next
  case (failed self data)
  from failed(5) show ?thesis
    by (cases rule: charge_failed_cases)
       (auto simp: status_writes_only_refl status_writes_only_failed split: option.splits)
qed

lemma verify_payment_completes:
  assumes "find (\<lambda>u. id' u = cu) (users db) = Some u" "paystack env = Some self"
     "verify_transaction X self R = Inr v" "reports_success v = Inr True"
     "find (\<lambda>t. paystack_reference t = R \<and> user_id t = cu) (payment_transactions db) = Some t"
  shows "\<exists>b db'. verify_payment X env cu R now db = Inr (Jsonify b 200, db') \<and>
     find (\<lambda>t. paystack_reference t = R \<and> user_id t = cu) (payment_transactions db') =
       Some (t\<lparr>status := ''completed''\<rparr>)"
proof -
  have "find (\<lambda>t. paystack_reference t = R \<and> user_id t = cu)
          (update_first (\<lambda>t. paystack_reference t = R \<and> user_id t = cu)
             (\<lambda>t. t\<lparr>status := ''completed''\<rparr>) (payment_transactions db)) =
        Some (t\<lparr>status := ''completed''\<rparr>)"
    using find_update_first[OF assms(5), of "\<lambda>t. t\<lparr>status := ''completed''\<rparr>"]
      find_Some_P[OF assms(5)] by simp
  with verify_payment_run[OF assms, of now] show ?thesis
    by (simp add: complete_payment_def)
qed

section \<open>The expiry a reconciliation stores\<close>

lemma verify_payment_expiry:
  assumes run: "verify_payment X env cu R now db = Inr (Jsonify b 200, db')"
    and t: "find (\<lambda>t. paystack_reference t = R \<and> user_id t = cu) (payment_transactions db) = Some t"
  shows "\<exists>u'. find (\<lambda>u. id' u = cu) (users db') = Some u' \<and> subscription_type u' = ''premium'' \<and>
           subscription_expires u' = Some (now + timedelta (plan_days t))"
proof -
  from verify_payment_cases[OF run] t obtain u where
    u: "find (\<lambda>u. id' u = cu) (users db) = Some u" and
    db': "db' = complete_payment (\<lambda>t. paystack_reference t = R \<and> user_id t = cu) cu t now db"
    by auto
  let ?f = "\<lambda>u. u\<lparr>subscription_type := ''premium'',
                    subscription_expires := Some (now + timedelta (plan_days t))\<rparr>"
  have "find (\<lambda>u. id' u = cu) (users db') = Some (?f u)"
    unfolding db' complete_payment_upgrade upgrade_def
    using find_update_first[OF u, of ?f] find_Some_P[OF u] by simp
  then show ?thesis by simp
qed

lemma payment_success_expiry:
  assumes run: "payment_success X env (Some R) now db =
                  Inr (Render_template ''index.html'' ''payment_success'', db')"
    and t: "find (\<lambda>t. paystack_reference t = R) (payment_transactions db) = Some t"
  shows "\<exists>u'. find (\<lambda>u. id' u = user_id t) (users db') = Some u' \<and>
           subscription_type u' = ''premium'' \<and>
           subscription_expires u' = Some (now + timedelta (plan_days t))"
proof -
  from run t obtain owner where
    u: "find (\<lambda>u. id' u = user_id t) (users db) = Some owner" and
    db': "db' = complete_payment (\<lambda>t. paystack_reference t = R) (user_id t) t now db"
    by (auto simp: payment_success_def bind_exn_def split: option.splits sum.splits if_splits)
  let ?f = "\<lambda>u. u\<lparr>subscription_type := ''premium'',
                    subscription_expires := Some (now + timedelta (plan_days t))\<rparr>"
  have "find (\<lambda>u. id' u = user_id t) (users db') = Some (?f owner)"
    unfolding db' complete_payment_upgrade upgrade_def
    using find_update_first[OF u, of ?f] find_Some_P[OF u] by simp
  then show ?thesis by simp
qed

lemma webhook_plan_of_data:
  assumes "webhook_plan_type wd = Inr plan" "py_get wd ''data'' (JObj []) = Inr data"
    "py_get data ''metadata'' (JObj []) = Inr metadata"
    "py_get metadata ''plan_type'' (JStr ''monthly'') = Inr plan'"
  shows "plan' = plan"
  using assms by (simp add: webhook_plan_type_def bind_exn_def)

lemma handle_success_expiry:
  assumes run: "handle_paystack_webhook X env wd sg now db =
                  Inr (status_dict ''success'' ''Subscription activated'', db')"
    and plan: "webhook_plan_type wd = Inr plan"
    and em: "webhook_email wd = Inr (JStr e)"
  shows "\<exists>u'. find (\<lambda>u. email u = e) (users db') = Some u' \<and> subscription_type u' = ''premium'' \<and>
           subscription_expires u' =
             Some (now + timedelta (if plan = JStr ''annual'' then 365 else 30))"
  using run
proof (cases rule: handle_paystack_webhook_cases)
  case unchanged
  then show ?thesis by simp
next
  case (failed self data)
  from failed(5) show ?thesis
    by (cases rule: charge_failed_cases) (simp add: status_dict_def)
next
  case (success self data)
  from success(5) show ?thesis
  proof (cases rule: charge_success_cases)
    case nobody
    then show ?thesis by (simp add: status_dict_def)
  next
    case (activated ref customer em' amt metadata plan' u db1)
    have em': "em' = JStr e"
      using webhook_email_of_data[OF em success(4) activated(2,3)] .
    have plan': "plan' = plan"
      using webhook_plan_of_data[OF plan success(4) activated(4,5)] .
    from User_filter_by_email_Some[OF activated(6)] em'
    have eu: "email u = e" and u: "find (\<lambda>x. email x = email u) (users db) = Some u"
      by (simp_all add: sql_text_def)
    let ?f = "\<lambda>x. x\<lparr>subscription_type := ''premium'',
                 subscription_expires := Some (now + timedelta (if plan = JStr ''annual'' then 365 else 30))\<rparr>"
    have "users db' = update_first (\<lambda>x. email x = email u) ?f (users db)"
      using activated(9) insert_payment_users[OF activated(7)] plan' by simp
    then have "find (\<lambda>x. email x = email u) (users db') = Some (?f u)"
      using find_update_first[OF u, of ?f] by simp
    then show ?thesis using eu by auto
  qed
qed

section \<open>Initialization and the plan type\<close>

lemma insert_payment_str:
  assumes "ref \<notin> set (map paystack_reference (payment_transactions db))"
  shows "insert_payment X db uid (JStr ref) amt st (JStr s) =
     Inr (db\<lparr>payment_transactions := payment_transactions db @
            [\<lparr>user_id = uid, paystack_reference = ref, amount = amt,
              currency = ''USD'', status = st, plan_type = Some s\<rparr>]\<rparr>)"
  using assms by (simp add: insert_payment_def sql_text_def bind_exn_def)





section \<open>The gateway client and the exceptions it catches\<close>








section \<open>The webhook handler, run by run\<close>

lemma filter_by_email_str:
  "User_filter_by_email X db (JStr e) = Inr (find (\<lambda>u. email u = e) (users db))"
  by (simp add: User_filter_by_email_def sql_text_def bind_exn_def)

lemma handle_success_run:
  assumes i: "init_paystack_payment env = Inr self"
    and v: "verify_webhook_signature X self (json_dumps wd) sg = Inr True"
    and ev: "webhook_event wd = Inr (JStr ''charge.success'')"
    and r: "webhook_reference wd = Inr (JStr R)"
    and em: "webhook_email wd = Inr (JStr e)"
    and pl: "webhook_plan_type wd = Inr (JStr p)"
    and am: "webhook_amount wd = Inr amt"
    and u: "find (\<lambda>u. email u = e) (users db) = Some u"
    and fresh: "R \<notin> set (map paystack_reference (payment_transactions db))"
  shows "handle_paystack_webhook X env wd sg now db =
     Inr (status_dict ''success'' ''Subscription activated'',
          db\<lparr>payment_transactions := payment_transactions db @
                 [\<lparr>user_id = id' u, paystack_reference = R, amount = amt, currency = ''USD'',
                   status = ''completed'', plan_type = Some p\<rparr>],
              users := update_first (\<lambda>x. email x = e)
                 (\<lambda>x. x\<lparr>subscription_type := ''premium'',
                         subscription_expires :=
                           Some (now + timedelta (if p = ''annual'' then 365 else 30))\<rparr>)
                 (users db)\<rparr>)"
proof -
  from r obtain data where d: "py_get wd ''data'' (JObj []) = Inr data"
    and ref: "py_get data ''reference'' JNull = Inr (JStr R)"
    by (auto simp: webhook_reference_def bind_exn_Inr)
  from em d obtain customer where c: "py_get data ''customer'' (JObj []) = Inr customer"
    and ce: "py_get customer ''email'' JNull = Inr (JStr e)"
    by (auto simp: webhook_email_def bind_exn_Inr)
  from am d obtain minor where m: "py_get data ''amount'' (JInt 0) = Inr minor"
    and ma: "py_div_100 minor = Inr amt"
    by (auto simp: webhook_amount_def bind_exn_Inr)
  from pl d obtain metadata where md: "py_get data ''metadata'' (JObj []) = Inr metadata"
    and mp: "py_get metadata ''plan_type'' (JStr ''monthly'') = Inr (JStr p)"
    by (auto simp: webhook_plan_type_def bind_exn_Inr)
  have eu: "email u = e" using find_Some_P[OF u] .
  have cs: "charge_success X data now db =
     Inr (status_dict ''success'' ''Subscription activated'',
          db\<lparr>payment_transactions := payment_transactions db @
                 [\<lparr>user_id = id' u, paystack_reference = R, amount = amt, currency = ''USD'',
                   status = ''completed'', plan_type = Some p\<rparr>],
              users := update_first (\<lambda>x. email x = e)
                 (\<lambda>x. x\<lparr>subscription_type := ''premium'',
                         subscription_expires :=
                           Some (now + timedelta (if p = ''annual'' then 365 else 30))\<rparr>)
                 (users db)\<rparr>)"
    using ref c ce m ma md mp u eu fresh
    by (simp add: charge_success_def bind_exn_def filter_by_email_str insert_payment_str Let_def)
  from i v ev d cs show ?thesis
    by (simp add: handle_paystack_webhook_def handle_paystack_webhook_body_def bind_exn_def
          webhook_event_def)
qed

lemma signature_refused:
  assumes "sg \<noteq> Some (hmac_sha512_hexdigest X (secret_key self) payload)"
  shows "verify_webhook_signature X self payload sg \<noteq> Inr True"
proof (cases sg)
  case None
  then show ?thesis by (simp add: verify_webhook_signature_def)
next
  case (Some s)
  with assms show ?thesis using digest_mismatch[of s X self payload] by simp
qed

lemma signature_accepted:
  assumes "is_ascii (hmac_sha512_hexdigest X (secret_key self) payload)"
  shows "verify_webhook_signature X self payload
           (Some (hmac_sha512_hexdigest X (secret_key self) payload)) = Inr True"
  using assms by (simp add: verify_webhook_signature_def)

lemma handle_duplicate_not_success:
  assumes dup: "R \<in> set (map paystack_reference (payment_transactions db))"
    and ev: "webhook_event wd = Inr (JStr ''charge.success'')"
    and r: "webhook_reference wd = Inr (JStr R)"
  shows "\<exists>res. handle_paystack_webhook X env wd sg now db = Inr (res, db) \<and>
           res \<noteq> status_dict ''success'' ''Subscription activated''"
proof -
  obtain res db' where run: "handle_paystack_webhook X env wd sg now db = Inr (res, db')"
    using handle_paystack_webhook_total by blast
  have "db' = db \<and> res \<noteq> status_dict ''success'' ''Subscription activated''"
    using run
  proof (cases rule: handle_paystack_webhook_cases)
    case unchanged
    then show ?thesis by simp
  next
    case (failed self data)
    with ev show ?thesis by (simp add: webhook_event_def)
  next
    case (success self data)
    from webhook_reference_of_data[OF r success(4)]
    have ref: "py_get data ''reference'' JNull = Inr (JStr R)" .
    from success(5) show ?thesis
    proof (cases rule: charge_success_cases)
      case nobody
      then show ?thesis by (simp add: status_dict_def)
    next
      case (activated ref' customer em amt metadata plan u db1)
      with ref insert_payment_duplicate[OF dup, of X "id' u" amt "''completed''" plan db1]
      show ?thesis by simp
    qed
  qed
  with run show ?thesis by blast
qed

lemma payment_success_completes:
  assumes "R \<noteq> []" "paystack env = Some self"
     "verify_transaction X self R = Inr v" "reports_success v = Inr True"
     "find (\<lambda>t. paystack_reference t = R) (payment_transactions db) = Some t"
     "find (\<lambda>u. id' u = user_id t) (users db) = Some owner"
  shows "\<exists>db'. payment_success X env (Some R) now db =
             Inr (Render_template ''index.html'' ''payment_success'', db') \<and>
     find (\<lambda>t. paystack_reference t = R) (payment_transactions db') =
       Some (t\<lparr>status := ''completed''\<rparr>)"
proof -
  have "find (\<lambda>t. paystack_reference t = R)
          (update_first (\<lambda>t. paystack_reference t = R)
             (\<lambda>t. t\<lparr>status := ''completed''\<rparr>) (payment_transactions db)) =
        Some (t\<lparr>status := ''completed''\<rparr>)"
    using find_update_first[OF assms(5), of "\<lambda>t. t\<lparr>status := ''completed''\<rparr>"]
      find_Some_P[OF assms(5)] by simp
  with assms show ?thesis
    by (simp add: payment_success_def bind_exn_def complete_payment_def)
qed

lemma find_reference_None:
  "(find (\<lambda>t. paystack_reference t = R) ts = None) = (R \<notin> set (map paystack_reference ts))"
  by (auto simp: find_None_iff)

lemma handle_nobody_run:
  assumes i: "init_paystack_payment env = Inr self"
    and v: "verify_webhook_signature X self (json_dumps wd) sg = Inr True"
    and ev: "webhook_event wd = Inr (JStr ''charge.success'')"
    and r: "webhook_reference wd = Inr ref"
    and em: "webhook_email wd = Inr (JStr e)"
    and pl: "webhook_plan_type wd = Inr p"
    and am: "webhook_amount wd = Inr amt"
    and u: "find (\<lambda>u. email u = e) (users db) = None"
  shows "handle_paystack_webhook X env wd sg now db =
     Inr (JObj [(''status'', JStr ''processed'')], db)"
proof -
  from r obtain data where d: "py_get wd ''data'' (JObj []) = Inr data"
    and ref: "py_get data ''reference'' JNull = Inr ref"
    by (auto simp: webhook_reference_def bind_exn_Inr)
  from em d obtain customer where c: "py_get data ''customer'' (JObj []) = Inr customer"
    and ce: "py_get customer ''email'' JNull = Inr (JStr e)"
    by (auto simp: webhook_email_def bind_exn_Inr)
  from am d obtain minor where m: "py_get data ''amount'' (JInt 0) = Inr minor"
    and ma: "py_div_100 minor = Inr amt"
    by (auto simp: webhook_amount_def bind_exn_Inr)
  from pl d obtain metadata where md: "py_get data ''metadata'' (JObj []) = Inr metadata"
    and mp: "py_get metadata ''plan_type'' (JStr ''monthly'') = Inr p"
    by (auto simp: webhook_plan_type_def bind_exn_Inr)
  have cs: "charge_success X data now db = Inr (JObj [(''status'', JStr ''processed'')], db)"
    using ref c ce m ma md mp u
    by (simp add: charge_success_def bind_exn_def filter_by_email_str)
  from i v ev d cs show ?thesis
    by (simp add: handle_paystack_webhook_def handle_paystack_webhook_body_def bind_exn_def
          webhook_event_def)
qed

lemma handle_duplicate_error:
  assumes i: "init_paystack_payment env = Inr self"
    and v: "verify_webhook_signature X self (json_dumps wd) sg = Inr True"
    and ev: "webhook_event wd = Inr (JStr ''charge.success'')"
    and r: "webhook_reference wd = Inr (JStr R)"
    and em: "webhook_email wd = Inr (JStr e)"
    and pl: "webhook_plan_type wd = Inr (JStr p)"
    and am: "webhook_amount wd = Inr amt"
    and u: "find (\<lambda>u. email u = e) (users db) = Some u"
    and dup: "R \<in> set (map paystack_reference (payment_transactions db))"
  shows "handle_paystack_webhook X env wd sg now db =
     Inr (status_dict ''error'' (str_exn X IntegrityError), db)"
proof -
  from r obtain data where d: "py_get wd ''data'' (JObj []) = Inr data"
    and ref: "py_get data ''reference'' JNull = Inr (JStr R)"
    by (auto simp: webhook_reference_def bind_exn_Inr)
  from em d obtain customer where c: "py_get data ''customer'' (JObj []) = Inr customer"
    and ce: "py_get customer ''email'' JNull = Inr (JStr e)"
    by (auto simp: webhook_email_def bind_exn_Inr)
  from am d obtain minor where m: "py_get data ''amount'' (JInt 0) = Inr minor"
    and ma: "py_div_100 minor = Inr amt"
    by (auto simp: webhook_amount_def bind_exn_Inr)
  from pl d obtain metadata where md: "py_get data ''metadata'' (JObj []) = Inr metadata"
    and mp: "py_get metadata ''plan_type'' (JStr ''monthly'') = Inr (JStr p)"
    by (auto simp: webhook_plan_type_def bind_exn_Inr)
  have ins: "insert_payment X db (id' u) (JStr R) amt ''completed'' (JStr p) = Inl IntegrityError"
    using dup by (simp add: insert_payment_def sql_text_def bind_exn_def)
  have cs: "charge_success X data now db = Inl IntegrityError"
    using ref c ce m ma md mp u ins
    by (simp add: charge_success_def bind_exn_def filter_by_email_str)
  from i v ev d cs show ?thesis
    by (simp add: handle_paystack_webhook_def handle_paystack_webhook_body_def bind_exn_def
          webhook_event_def)
qed

lemma handle_wrong_signature:
  assumes i: "init_paystack_payment env = Inr self"
    and a: "is_ascii s" "is_ascii (hmac_sha512_hexdigest X (secret_key self) (json_dumps wd))"
    and d: "s \<noteq> hmac_sha512_hexdigest X (secret_key self) (json_dumps wd)"
  shows "handle_paystack_webhook X env wd (Some s) now db =
     Inr (status_dict ''error'' ''Invalid signature'', db)"
  using assms
  by (auto simp: handle_paystack_webhook_def handle_paystack_webhook_body_def bind_exn_def
        verify_webhook_signature_def)

section \<open>The view that serves the webhook URL\<close>

lemma paystack_webhook_500:
  "paystack env = Some self \<Longrightarrow>
   paystack_webhook X env req now db =
     Inr (Jsonify (error_body ''Webhook processing failed'') 500, db)"
  by (simp add: paystack_webhook_def verify_webhook_def bind_exn_def)

lemma post_api_payment_webhook_view:
  "post_api_payment_webhook X env req now db = paystack_webhook X env req now db"
  by (simp add: post_api_payment_webhook_def webhook_views_def)

lemma post_api_payment_webhook_fails:
  "\<exists>b. post_api_payment_webhook X env req now db = Inr (Jsonify b 500, db)"
  using paystack_webhook_fails[of X env req now db]
  by (simp add: post_api_payment_webhook_def webhook_views_def)

lemma post_api_payment_webhook_unconfigured:
  "paystack env = None \<Longrightarrow>
   post_api_payment_webhook X env req now db =
     Inr (Jsonify (error_body ''Payment system not configured'') 500, db)"
  by (simp add: post_api_payment_webhook_def webhook_views_def paystack_webhook_def)

section \<open>Runs under the sample values\<close>

lemma digit_values:
  "digit 0 = CHR ''0''" "digit 1 = CHR ''1''" "digit 2 = CHR ''2''" "digit 3 = CHR ''3''"
  "digit 4 = CHR ''4''" "digit 5 = CHR ''5''" "digit 6 = CHR ''6''" "digit 7 = CHR ''7''"
  "digit 8 = CHR ''8''" "digit 9 = CHR ''9''" "digit (Suc 0) = CHR ''1''"
  by code_simp+

lemma is_ascii_str_nat: "is_ascii (str_nat n)"
proof (induction n rule: str_nat.induct)
  case (1 n)
  have d: "is_ascii [digit k]" if "k < 10" for k
    using that by (simp add: is_ascii_def digit_def)
  show ?case
  proof (cases "n < 10")
    case True
    then show ?thesis using d[of n] by (subst str_nat.simps) simp
  next
    case False
    then have "is_ascii (str_nat (n div 10))" using 1 by simp
    moreover have "is_ascii [digit (n mod 10)]" using d[of "n mod 10"] by simp
    ultimately show ?thesis using False
      by (subst str_nat.simps) (simp add: is_ascii_def)
  qed
qed

lemma X0_accepts_signed:
  "verify_webhook_signature X0 \<lparr>public_key = pk, secret_key = ''sk_test'', base_url = b\<rparr>
     (json_dumps wd) (signed X0 wd) = Inr True"
  using is_ascii_str_nat
  by (simp add: verify_webhook_signature_def signed_def X0_def)

lemma handle_signed_run:
  assumes "py_get wd ''event'' JNull = Inr event" "py_get wd ''data'' (JObj []) = Inr data"
  shows "handle_paystack_webhook_body X0 env0 wd (signed X0 wd) now db =
     (if event = JStr ''charge.success'' then charge_success X0 data now db
      else if event = JStr ''charge.failed'' then charge_failed X0 data db
      else Inr (JObj [(''status'', JStr ''processed'')], db))"
  using assms
  by (simp add: handle_paystack_webhook_body_def env0_def init_paystack_payment_def
        X0_accepts_signed bind_exn_def)

lemma sample_failed_fields:
  "webhook_event (sample_webhook ''charge.failed'' R e) = Inr (JStr ''charge.failed'')"
  "webhook_reference (sample_webhook ''charge.failed'' R e) = Inr (JStr R)"
  by (simp_all add: webhook_event_def webhook_reference_def sample_webhook_def bind_exn_def)

lemma init_env0: "init_paystack_payment env0 = Inr client0"
  by (simp add: env0_def client0_def init_paystack_payment_def)

lemma client0_accepts_signed:
  "verify_webhook_signature X0 client0 (json_dumps wd) (signed X0 wd) = Inr True"
  unfolding client0_def by (rule X0_accepts_signed)

lemma paystack_env0: "paystack env0 = Some client0"
  by (simp add: paystack_def init_env0)

lemma X0_confirms:
  "verify_transaction X0 client0 R = Inr gateway_success" "reports_success gateway_success = Inr True"
  by (simp_all add: verify_transaction_def X0_def reports_success_def gateway_success_def bind_exn_def)

lemma sample_success_fields:
  "webhook_event (sample_webhook ''charge.success'' R e) = Inr (JStr ''charge.success'')"
  "webhook_reference (sample_webhook ''charge.success'' R e) = Inr (JStr R)"
  "webhook_email (sample_webhook ev R e) = Inr (JStr e)"
  "webhook_plan_type (sample_webhook ev R e) = Inr (JStr ''monthly'')"
  by (simp_all add: webhook_event_def webhook_reference_def webhook_email_def
        webhook_plan_type_def sample_webhook_def bind_exn_def)

lemma sample_verify_run:
  "verify_payment X0 env0 ''u1'' ''R1'' now (sample_db st sub ex) =
     Inr (Jsonify (activated X0 (now + timedelta 30)) 200,
          sample_db ''completed'' ''premium'' (Some (now + timedelta 30)))"
  by (simp add: verify_payment_def Let_def bind_exn_def sample_db_def paystack_env0 X0_confirms
        complete_payment_def)

lemma sample_payment_success_run:
  "payment_success X0 env0 (Some ''R1'') now (sample_db st sub ex) =
     Inr (Render_template ''index.html'' ''payment_success'',
          sample_db ''completed'' ''premium'' (Some (now + timedelta 30)))"
  by (simp add: payment_success_def Let_def bind_exn_def sample_db_def paystack_env0 X0_confirms
        complete_payment_def)

lemma sample_charge_success_run:
  "handle_paystack_webhook X0 env0 (sample_webhook ''charge.success'' ''R9'' ''user@x.com'')
       (signed X0 (sample_webhook ''charge.success'' ''R9'' ''user@x.com'')) now
       (sample_db ''pending'' ''free'' None) =
     Inr (status_dict ''success'' ''Subscription activated'',
          \<lparr>users = [\<lparr>id' = ''u1'', email = ''user@x.com'', subscription_type = ''premium'',
                      subscription_expires = Some (now + timedelta 30)\<rparr>],
           payment_transactions =
             [\<lparr>user_id = ''u1'', paystack_reference = ''R1'', amount = 999, currency = ''USD'',
                status = ''pending'', plan_type = Some ''monthly''\<rparr>,
              \<lparr>user_id = ''u1'', paystack_reference = ''R9'', amount = 17982, currency = ''USD'',
                status = ''completed'', plan_type = Some ''monthly''\<rparr>]\<rparr>)"
proof -
  let ?wd = "sample_webhook ''charge.success'' ''R9'' ''user@x.com''"
  let ?data = "JObj [(''reference'', JStr ''R9''), (''amount'', JInt 17982),
                     (''customer'', JObj [(''email'', JStr ''user@x.com'')])]"
  have ev: "py_get ?wd ''event'' JNull = Inr (JStr ''charge.success'')"
    and dat: "py_get ?wd ''data'' (JObj []) = Inr ?data"
    by (simp_all add: sample_webhook_def)
  have body: "handle_paystack_webhook_body X0 env0 ?wd (signed X0 ?wd) now (sample_db ''pending'' ''free'' None) =
      charge_success X0 ?data now (sample_db ''pending'' ''free'' None)"
    using handle_signed_run[OF ev dat] by simp
  show ?thesis
    unfolding handle_paystack_webhook_def body
    by (simp add: charge_success_def bind_exn_def sample_db_def User_filter_by_email_def
          sql_text_def insert_payment_def Let_def)
qed



lemma dumps_spaced: "json_dumps spaced_decoded \<noteq> spaced_body"
  by (simp add: spaced_decoded_def spaced_body_def encode_basestring_ascii_def escape_char_def)

lemma sample_amount: "webhook_amount (sample_webhook ev R e) = Inr 17982"
  by (simp add: webhook_amount_def sample_webhook_def bind_exn_def)

section \<open>Claims\<close>

text \<open>
  Claim C1, as the code has it. When \<^verbatim>\<open>verify_payment\<close> has completed the transaction of
  reference \<open>R\<close> for the caller, a second call for \<open>R\<close> answers with success again and
  leaves the ledger as it is: the transaction it finds is the completed one. It writes
  the subscription again, with the expiry counted from the second call's clock, so the
  stored state is unchanged exactly when both calls read the same time. A
  \<^verbatim>\<open>charge.success\<close> payload handed to \<^verbatim>\<open>handle_paystack_webhook\<close> for a reference the
  ledger already holds changes nothing in the stored state.
\<close>

theorem repeated_success_signal:
  "(verify_payment X env cu R now1 db = Inr (Jsonify b 200, db1) \<longrightarrow>
      (\<exists>t. find (\<lambda>t. paystack_reference t = R \<and> user_id t = cu) (payment_transactions db1) = Some t
         \<and> status t = ''completed''
         \<and> verify_payment X env cu R now2 db1 =
             Inr (Jsonify (activated X (now2 + timedelta (plan_days t))) 200,
                  upgrade cu (now2 + timedelta (plan_days t)) db1)
         \<and> (upgrade cu (now2 + timedelta (plan_days t)) db1 = db1) = (now2 = now1)))
   \<and> (R \<in> set (map paystack_reference (payment_transactions db'))
        \<and> webhook_event wd = Inr (JStr ''charge.success'')
        \<and> webhook_reference wd = Inr (JStr R) \<longrightarrow>
      (\<exists>res. handle_paystack_webhook X env wd sg now db' = Inr (res, db')))"
  using verify_payment_again[of X env cu R now1 db b db1 now2]
    handle_duplicate_reference[of R db' wd X env sg now]
  by blast

theorem repeated_success_signal_witness:
  "verify_payment X0 env0 ''u1'' ''R1'' 0 (sample_db ''pending'' ''free'' None) =
     Inr (Jsonify (activated X0 (timedelta 30)) 200,
          sample_db ''completed'' ''premium'' (Some (timedelta 30)))
   \<and> (\<exists>t. find (\<lambda>t. paystack_reference t = ''R1'' \<and> user_id t = ''u1'')
             (payment_transactions (sample_db ''completed'' ''premium'' (Some (timedelta 30)))) = Some t
         \<and> status t = ''completed''
         \<and> verify_payment X0 env0 ''u1'' ''R1'' 7 (sample_db ''completed'' ''premium'' (Some (timedelta 30))) =
             Inr (Jsonify (activated X0 (7 + timedelta (plan_days t))) 200,
                  upgrade ''u1'' (7 + timedelta (plan_days t))
                    (sample_db ''completed'' ''premium'' (Some (timedelta 30))))
         \<and> (upgrade ''u1'' (7 + timedelta (plan_days t))
               (sample_db ''completed'' ''premium'' (Some (timedelta 30))) =
             sample_db ''completed'' ''premium'' (Some (timedelta 30))) = ((7::int) = 0))
   \<and> ''R1'' \<in> set (map paystack_reference (payment_transactions (sample_db ''completed'' ''premium'' None)))
   \<and> webhook_event (sample_webhook ''charge.success'' ''R1'' ''user@x.com'') = Inr (JStr ''charge.success'')
   \<and> webhook_reference (sample_webhook ''charge.success'' ''R1'' ''user@x.com'') = Inr (JStr ''R1'')
   \<and> (\<exists>res. handle_paystack_webhook X0 env0 (sample_webhook ''charge.success'' ''R1'' ''user@x.com'')
               (signed X0 (sample_webhook ''charge.success'' ''R1'' ''user@x.com'')) 0
               (sample_db ''completed'' ''premium'' None) =
             Inr (res, sample_db ''completed'' ''premium'' None))"
proof -
  have h1: "verify_payment X0 env0 ''u1'' ''R1'' 0 (sample_db ''pending'' ''free'' None) =
     Inr (Jsonify (activated X0 (timedelta 30)) 200,
          sample_db ''completed'' ''premium'' (Some (timedelta 30)))"
    by (simp add: verify_payment_def Let_def bind_exn_def sample_db_def env0_def X0_def paystack_def
       init_paystack_payment_def verify_transaction_def reports_success_def gateway_success_def
       complete_payment_def headers_def)
  have h2: "''R1'' \<in> set (map paystack_reference (payment_transactions (sample_db ''completed'' ''premium'' None)))
     \<and> webhook_event (sample_webhook ''charge.success'' ''R1'' ''user@x.com'') = Inr (JStr ''charge.success'')
     \<and> webhook_reference (sample_webhook ''charge.success'' ''R1'' ''user@x.com'') = Inr (JStr ''R1'')"
    by (simp add: sample_db_def webhook_event_def webhook_reference_def sample_webhook_def bind_exn_def)
  from repeated_success_signal[where X = X0 and env = env0 and cu = "''u1''" and R = "''R1''"
      and ?now1.0 = 0 and db = "sample_db ''pending'' ''free'' None"
      and b = "activated X0 (timedelta 30)"
      and ?db1.0 = "sample_db ''completed'' ''premium'' (Some (timedelta 30))" and ?now2.0 = 7
      and db' = "sample_db ''completed'' ''premium'' None"
      and wd = "sample_webhook ''charge.success'' ''R1'' ''user@x.com''"
      and sg = "signed X0 (sample_webhook ''charge.success'' ''R1'' ''user@x.com'')" and now = 0] h1 h2
  show ?thesis by blast
qed

text \<open>The claim as the specification words it fails: after the first verification has
  completed \<^verbatim>\<open>R1\<close>, a second one a microsecond later stores another expiry.\<close>

theorem second_verification_changes_expiry:
  "verify_payment X0 env0 ''u1'' ''R1'' 0 (sample_db ''pending'' ''free'' None) =
     Inr (Jsonify (activated X0 (timedelta 30)) 200,
          sample_db ''completed'' ''premium'' (Some (timedelta 30)))
   \<and> verify_payment X0 env0 ''u1'' ''R1'' 1 (sample_db ''completed'' ''premium'' (Some (timedelta 30))) =
     Inr (Jsonify (activated X0 (1 + timedelta 30)) 200,
          sample_db ''completed'' ''premium'' (Some (1 + timedelta 30)))
   \<and> map subscription_expires (users (sample_db ''completed'' ''premium'' (Some (1 + timedelta 30)))) \<noteq>
     map subscription_expires (users (sample_db ''completed'' ''premium'' (Some (timedelta 30))))"
  by (simp add: verify_payment_def Let_def bind_exn_def sample_db_def env0_def X0_def paystack_def
       init_paystack_payment_def verify_transaction_def reports_success_def gateway_success_def
       complete_payment_def headers_def)

text \<open>
  Claim C2, as the code has it, for a reference \<open>R\<close> without a transaction. The routes that
  look the reference up store nothing: \<^verbatim>\<open>verify_payment\<close> also answers with a failure,
  \<^verbatim>\<open>payment_success\<close> leaves the state as it is, and a delivery to
  \<^verbatim>\<open>/api/payment/webhook\<close> is answered with status 500. The handler
  \<^verbatim>\<open>handle_paystack_webhook\<close>, called with a \<^verbatim>\<open>charge.success\<close> payload, does not read
  the ledger. When its signature check accepts the payload it looks for the user with the
  customer's email: without such a user it answers \<^verbatim>\<open>{"status": "processed"}\<close> and stores
  nothing; with one it answers with success, appends a completed transaction for \<open>R\<close> and
  makes that user premium. When the signature check does not accept the payload it answers
  with an error and stores nothing. In every case either no user row changes or exactly
  the first user with the customer's email is made premium. No user is created.
\<close>

theorem success_signal_without_transaction:
  "(find (\<lambda>t. paystack_reference t = R) (payment_transactions db) = None \<longrightarrow>
      (\<exists>resp. verify_payment X env cu R now db = Inr (resp, db) \<and> (\<forall>b. resp \<noteq> Jsonify b 200))
      \<and> (\<forall>resp db'. payment_success X env (Some R) now db = Inr (resp, db') \<longrightarrow> db' = db))
   \<and> (\<exists>b. post_api_payment_webhook X env req now db = Inr (Jsonify b 500, db))
   \<and> (find (\<lambda>t. paystack_reference t = R) (payment_transactions db) = None
        \<and> init_paystack_payment env = Inr self
        \<and> verify_webhook_signature X self (json_dumps wd) sg = Inr True
        \<and> webhook_event wd = Inr (JStr ''charge.success'')
        \<and> webhook_reference wd = Inr (JStr R)
        \<and> webhook_email wd = Inr (JStr e)
        \<and> webhook_plan_type wd = Inr (JStr p)
        \<and> webhook_amount wd = Inr amt \<and> \<bar>amt\<bar> < 10 ^ 15 \<longrightarrow>
      handle_paystack_webhook X env wd sg now db =
        (case find (\<lambda>u. email u = e) (users db) of
           None \<Rightarrow> Inr (JObj [(''status'', JStr ''processed'')], db)
         | Some u \<Rightarrow>
             Inr (status_dict ''success'' ''Subscription activated'',
                  db\<lparr>payment_transactions := payment_transactions db @
                         [\<lparr>user_id = id' u, paystack_reference = R, amount = amt,
                           currency = ''USD'', status = ''completed'', plan_type = Some p\<rparr>],
                      users := update_first (\<lambda>x. email x = e)
                         (\<lambda>x. x\<lparr>subscription_type := ''premium'',
                                 subscription_expires :=
                                   Some (now + timedelta (if p = ''annual'' then 365 else 30))\<rparr>)
                         (users db)\<rparr>)))
   \<and> (init_paystack_payment env = Inr self
        \<and> verify_webhook_signature X self (json_dumps wd) sg \<noteq> Inr True \<longrightarrow>
      (\<exists>m. handle_paystack_webhook X env wd sg now db = Inr (status_dict ''error'' m, db)))
   \<and> (\<forall>res db'. handle_paystack_webhook X env wd sg now db = Inr (res, db') \<longrightarrow>
        users db' = users db \<or>
        (\<exists>em u ex. webhook_email wd = Inr em \<and> User_filter_by_email X db em = Inr (Some u) \<and>
           res = status_dict ''success'' ''Subscription activated'' \<and>
           users db' = update_first (\<lambda>x. email x = email u)
             (\<lambda>x. x\<lparr>subscription_type := ''premium'', subscription_expires := Some ex\<rparr>) (users db)))"
proof -
  have run: "handle_paystack_webhook X env wd sg now db =
        (case find (\<lambda>u. email u = e) (users db) of
           None \<Rightarrow> Inr (JObj [(''status'', JStr ''processed'')], db)
         | Some u \<Rightarrow>
             Inr (status_dict ''success'' ''Subscription activated'',
                  db\<lparr>payment_transactions := payment_transactions db @
                         [\<lparr>user_id = id' u, paystack_reference = R, amount = amt,
                           currency = ''USD'', status = ''completed'', plan_type = Some p\<rparr>],
                      users := update_first (\<lambda>x. email x = e)
                         (\<lambda>x. x\<lparr>subscription_type := ''premium'',
                                 subscription_expires :=
                                   Some (now + timedelta (if p = ''annual'' then 365 else 30))\<rparr>)
                         (users db)\<rparr>))"
    if n: "find (\<lambda>t. paystack_reference t = R) (payment_transactions db) = None"
      and i: "init_paystack_payment env = Inr self"
      and v: "verify_webhook_signature X self (json_dumps wd) sg = Inr True"
      and ev: "webhook_event wd = Inr (JStr ''charge.success'')"
      and r: "webhook_reference wd = Inr (JStr R)"
      and em: "webhook_email wd = Inr (JStr e)"
      and pl: "webhook_plan_type wd = Inr (JStr p)"
      and am: "webhook_amount wd = Inr amt"
  proof (cases "find (\<lambda>u. email u = e) (users db)")
    case None
    with handle_nobody_run[OF i v ev r em pl am None, of now] show ?thesis by simp
  next
    case (Some u)
    from n have fresh: "R \<notin> set (map paystack_reference (payment_transactions db))"
      unfolding find_reference_None .
    from handle_success_run[OF i v ev r em pl am Some fresh, of now] Some show ?thesis by simp
  qed
  show ?thesis
    using verify_payment_unknown_reference[of R db X env cu now]
      payment_success_unknown_reference[of R db X env now]
      post_api_payment_webhook_fails[of X env req now db]
      run
      handle_rejects[of env self X wd sg now db]
      handle_users[of X env wd sg now db]
    by blast
qed

theorem success_signal_without_transaction_witness:
  "find (\<lambda>t. paystack_reference t = ''R9'') (payment_transactions (sample_db ''pending'' ''free'' None)) = None
   \<and> (\<exists>resp. verify_payment X0 env0 ''u1'' ''R9'' 0 (sample_db ''pending'' ''free'' None) =
               Inr (resp, sample_db ''pending'' ''free'' None) \<and> (\<forall>b. resp \<noteq> Jsonify b 200))
   \<and> init_paystack_payment env0 = Inr client0
   \<and> verify_webhook_signature X0 client0
        (json_dumps (sample_webhook ''charge.success'' ''R9'' ''user@x.com''))
        (signed X0 (sample_webhook ''charge.success'' ''R9'' ''user@x.com'')) = Inr True
   \<and> webhook_event (sample_webhook ''charge.success'' ''R9'' ''user@x.com'') = Inr (JStr ''charge.success'')
   \<and> webhook_reference (sample_webhook ''charge.success'' ''R9'' ''user@x.com'') = Inr (JStr ''R9'')
   \<and> webhook_email (sample_webhook ''charge.success'' ''R9'' ''user@x.com'') = Inr (JStr ''user@x.com'')
   \<and> webhook_plan_type (sample_webhook ''charge.success'' ''R9'' ''user@x.com'') = Inr (JStr ''monthly'')
   \<and> webhook_amount (sample_webhook ''charge.success'' ''R9'' ''user@x.com'') = Inr 17982
   \<and> handle_paystack_webhook X0 env0 (sample_webhook ''charge.success'' ''R9'' ''user@x.com'')
        (signed X0 (sample_webhook ''charge.success'' ''R9'' ''user@x.com'')) 0
        (sample_db ''pending'' ''free'' None) =
      Inr (status_dict ''success'' ''Subscription activated'',
           \<lparr>users = [\<lparr>id' = ''u1'', email = ''user@x.com'', subscription_type = ''premium'',
                       subscription_expires = Some (timedelta 30)\<rparr>],
            payment_transactions =
              [\<lparr>user_id = ''u1'', paystack_reference = ''R1'', amount = 999, currency = ''USD'',
                 status = ''pending'', plan_type = Some ''monthly''\<rparr>,
               \<lparr>user_id = ''u1'', paystack_reference = ''R9'', amount = 17982, currency = ''USD'',
                 status = ''completed'', plan_type = Some ''monthly''\<rparr>]\<rparr>)
   \<and> handle_paystack_webhook X0 env0 (sample_webhook ''charge.success'' ''R9'' ''nobody@x.com'')
        (signed X0 (sample_webhook ''charge.success'' ''R9'' ''nobody@x.com'')) 0
        (sample_db ''pending'' ''free'' None) =
      Inr (JObj [(''status'', JStr ''processed'')], sample_db ''pending'' ''free'' None)
   \<and> verify_webhook_signature X0 client0
        (json_dumps (sample_webhook ''charge.success'' ''R9'' ''user@x.com'')) (Some ''00'') \<noteq> Inr True
   \<and> (\<exists>m. handle_paystack_webhook X0 env0 (sample_webhook ''charge.success'' ''R9'' ''user@x.com'')
             (Some ''00'') 0 (sample_db ''pending'' ''free'' None) =
           Inr (status_dict ''error'' m, sample_db ''pending'' ''free'' None))"
proof -
  let ?db = "sample_db ''pending'' ''free'' None"
  let ?wu = "sample_webhook ''charge.success'' ''R9'' ''user@x.com''"
  let ?wn = "sample_webhook ''charge.success'' ''R9'' ''nobody@x.com''"
  have h1: "find (\<lambda>t. paystack_reference t = ''R9'') (payment_transactions ?db) = None"
    by (simp add: sample_db_def)
  have small: "\<bar>17982 :: int\<bar> < 10 ^ 15" by simp
  have forged: "verify_webhook_signature X0 client0 (json_dumps ?wu) (Some ''00'') \<noteq> Inr True"
    by (rule digest_mismatch)
      (simp add: X0_def client0_def sample_webhook_def encode_basestring_ascii_def escape_char_def
         str_nat.simps digit_values)
  note a = success_signal_without_transaction[where R = "''R9''" and db = ?db
      and X = X0 and env = env0 and cu = "''u1''" and now = 0 and self = client0
      and wd = ?wu and sg = "signed X0 ?wu" and e = "''user@x.com''" and p = "''monthly''"
      and amt = 17982]
  note b = success_signal_without_transaction[where R = "''R9''" and db = ?db
      and X = X0 and env = env0 and cu = "''u1''" and now = 0 and self = client0
      and wd = ?wn and sg = "signed X0 ?wn" and e = "''nobody@x.com''" and p = "''monthly''"
      and amt = 17982]
  note c = success_signal_without_transaction[where db = ?db
      and X = X0 and env = env0 and now = 0 and self = client0
      and wd = ?wu and sg = "Some ''00''"]
  have hu: "find (\<lambda>t. paystack_reference t = ''R9'') (payment_transactions ?db) = None
        \<and> init_paystack_payment env0 = Inr client0
        \<and> verify_webhook_signature X0 client0 (json_dumps ?wu) (signed X0 ?wu) = Inr True
        \<and> webhook_event ?wu = Inr (JStr ''charge.success'')
        \<and> webhook_reference ?wu = Inr (JStr ''R9'')
        \<and> webhook_email ?wu = Inr (JStr ''user@x.com'')
        \<and> webhook_plan_type ?wu = Inr (JStr ''monthly'')
        \<and> webhook_amount ?wu = Inr 17982 \<and> \<bar>17982 :: int\<bar> < 10 ^ 15"
    and hn: "find (\<lambda>t. paystack_reference t = ''R9'') (payment_transactions ?db) = None
        \<and> init_paystack_payment env0 = Inr client0
        \<and> verify_webhook_signature X0 client0 (json_dumps ?wn) (signed X0 ?wn) = Inr True
        \<and> webhook_event ?wn = Inr (JStr ''charge.success'')
        \<and> webhook_reference ?wn = Inr (JStr ''R9'')
        \<and> webhook_email ?wn = Inr (JStr ''nobody@x.com'')
        \<and> webhook_plan_type ?wn = Inr (JStr ''monthly'')
        \<and> webhook_amount ?wn = Inr 17982 \<and> \<bar>17982 :: int\<bar> < 10 ^ 15"
    by (simp_all only: h1 init_env0 client0_accepts_signed sample_success_fields sample_amount
          small simp_thms)
  have v: "\<exists>resp. verify_payment X0 env0 ''u1'' ''R9'' 0 ?db = Inr (resp, ?db)
      \<and> (\<forall>b. resp \<noteq> Jsonify b 200)"
    using a[THEN conjunct1, THEN mp, OF h1, THEN conjunct1] .
  have ru: "handle_paystack_webhook X0 env0 ?wu (signed X0 ?wu) 0 ?db =
      Inr (status_dict ''success'' ''Subscription activated'',
           \<lparr>users = [\<lparr>id' = ''u1'', email = ''user@x.com'', subscription_type = ''premium'',
                       subscription_expires = Some (timedelta 30)\<rparr>],
            payment_transactions =
              [\<lparr>user_id = ''u1'', paystack_reference = ''R1'', amount = 999, currency = ''USD'',
                 status = ''pending'', plan_type = Some ''monthly''\<rparr>,
               \<lparr>user_id = ''u1'', paystack_reference = ''R9'', amount = 17982, currency = ''USD'',
                 status = ''completed'', plan_type = Some ''monthly''\<rparr>]\<rparr>)"
    using a[THEN conjunct2, THEN conjunct2, THEN conjunct1, THEN mp, OF hu]
    by (simp add: sample_db_def)
  have rn: "handle_paystack_webhook X0 env0 ?wn (signed X0 ?wn) 0 ?db =
      Inr (JObj [(''status'', JStr ''processed'')], ?db)"
    using b[THEN conjunct2, THEN conjunct2, THEN conjunct1, THEN mp, OF hn]
    by (simp add: sample_db_def)
  have rf: "\<exists>m. handle_paystack_webhook X0 env0 ?wu (Some ''00'') 0 ?db = Inr (status_dict ''error'' m, ?db)"
    using c[THEN conjunct2, THEN conjunct2, THEN conjunct2, THEN conjunct1, THEN mp,
        OF conjI[OF init_env0 forged]] .
  from hu have fields: "verify_webhook_signature X0 client0 (json_dumps ?wu) (signed X0 ?wu) = Inr True
        \<and> webhook_event ?wu = Inr (JStr ''charge.success'')
        \<and> webhook_reference ?wu = Inr (JStr ''R9'')
        \<and> webhook_email ?wu = Inr (JStr ''user@x.com'')
        \<and> webhook_plan_type ?wu = Inr (JStr ''monthly'')
        \<and> webhook_amount ?wu = Inr 17982"
    by (simp only: simp_thms)
  from h1 v init_env0 fields ru rn forged rf
  show ?thesis by blast
qed

text \<open>The claim as the specification words it fails: a signed \<^verbatim>\<open>charge.success\<close> for the
  reference \<^verbatim>\<open>R9\<close>, which the ledger does not hold, handed to
  \<^verbatim>\<open>handle_paystack_webhook\<close>, upgrades the user who has the customer's email and inserts
  a completed transaction.\<close>

theorem unknown_reference_upgrades_user:
  "find (\<lambda>t. paystack_reference t = ''R9'') (payment_transactions (sample_db ''pending'' ''free'' None)) = None
   \<and> handle_paystack_webhook X0 env0 (sample_webhook ''charge.success'' ''R9'' ''user@x.com'')
       (signed X0 (sample_webhook ''charge.success'' ''R9'' ''user@x.com'')) 0
       (sample_db ''pending'' ''free'' None) =
     Inr (status_dict ''success'' ''Subscription activated'',
          \<lparr>users = [\<lparr>id' = ''u1'', email = ''user@x.com'', subscription_type = ''premium'',
                      subscription_expires = Some (timedelta 30)\<rparr>],
           payment_transactions =
             [\<lparr>user_id = ''u1'', paystack_reference = ''R1'', amount = 999, currency = ''USD'',
                status = ''pending'', plan_type = Some ''monthly''\<rparr>,
              \<lparr>user_id = ''u1'', paystack_reference = ''R9'', amount = 17982, currency = ''USD'',
                status = ''completed'', plan_type = Some ''monthly''\<rparr>]\<rparr>)"
proof -
  let ?wd = "sample_webhook ''charge.success'' ''R9'' ''user@x.com''"
  let ?data = "JObj [(''reference'', JStr ''R9''), (''amount'', JInt 17982),
                     (''customer'', JObj [(''email'', JStr ''user@x.com'')])]"
  have ev: "py_get ?wd ''event'' JNull = Inr (JStr ''charge.success'')"
    and dat: "py_get ?wd ''data'' (JObj []) = Inr ?data"
    by (simp_all add: sample_webhook_def)
  have body: "handle_paystack_webhook_body X0 env0 ?wd (signed X0 ?wd) 0 (sample_db ''pending'' ''free'' None) =
      charge_success X0 ?data 0 (sample_db ''pending'' ''free'' None)"
    using handle_signed_run[OF ev dat] by simp
  show ?thesis
    unfolding handle_paystack_webhook_def body
    by (simp add: charge_success_def bind_exn_def sample_db_def User_filter_by_email_def
          sql_text_def insert_payment_def Let_def)
qed

text \<open>
  Claim C3 at the failing input. \<^verbatim>\<open>verify_webhook_signature\<close> compares the signature
  with the digest of the bytes it is given, but \<^verbatim>\<open>handle_paystack_webhook\<close> is given the
  decoded payload and no bytes: it signs \<^verbatim>\<open>json.dumps\<close> of the payload. So a call whose
  signature is not the digest of that re-serialization is answered with an error and
  nothing is stored, and a call whose signature is the digest of the re-serialization is
  processed. For the payload \<^verbatim>\<open>{'event': 'charge.failed'}\<close> the re-serialization is not
  the text \<^verbatim>\<open>{"event": "charge.failed"}\<close> that decodes to it, and a call with the digest
  of that text is answered \<^verbatim>\<open>Invalid signature\<close> whenever the two digests differ.
\<close>

theorem handler_signs_reserialized_payload:
  "(init_paystack_payment env = Inr self
      \<and> sg \<noteq> Some (hmac_sha512_hexdigest X (secret_key self) (json_dumps wd)) \<longrightarrow>
    (\<exists>m. handle_paystack_webhook X env wd sg now db = Inr (status_dict ''error'' m, db)))
   \<and> (init_paystack_payment env = Inr self
      \<and> is_ascii (hmac_sha512_hexdigest X (secret_key self) (json_dumps wd))
      \<and> webhook_event wd = Inr (JStr ''charge.failed'')
      \<and> webhook_reference wd = Inr (JStr R) \<longrightarrow>
    handle_paystack_webhook X env wd
        (Some (hmac_sha512_hexdigest X (secret_key self) (json_dumps wd))) now db =
      Inr (status_dict ''failed'' ''Payment failed'',
           db\<lparr>payment_transactions := update_first (\<lambda>t. paystack_reference t = R)
                 (\<lambda>t. t\<lparr>status := ''failed''\<rparr>) (payment_transactions db)\<rparr>))
   \<and> json_dumps spaced_decoded \<noteq> spaced_body
   \<and> (init_paystack_payment env = Inr self
      \<and> is_ascii (hmac_sha512_hexdigest X (secret_key self) spaced_body)
      \<and> is_ascii (hmac_sha512_hexdigest X (secret_key self) (json_dumps spaced_decoded))
      \<and> hmac_sha512_hexdigest X (secret_key self) spaced_body \<noteq>
          hmac_sha512_hexdigest X (secret_key self) (json_dumps spaced_decoded) \<longrightarrow>
    handle_paystack_webhook X env spaced_decoded
        (Some (hmac_sha512_hexdigest X (secret_key self) spaced_body)) now db =
      Inr (status_dict ''error'' ''Invalid signature'', db))"
proof -
  have refused: "\<exists>m. handle_paystack_webhook X env wd sg now db = Inr (status_dict ''error'' m, db)"
    if i: "init_paystack_payment env = Inr self"
      and d: "sg \<noteq> Some (hmac_sha512_hexdigest X (secret_key self) (json_dumps wd))"
    using handle_rejects[OF i signature_refused[OF d], of now db] .
  have accepted: "handle_paystack_webhook X env wd
        (Some (hmac_sha512_hexdigest X (secret_key self) (json_dumps wd))) now db =
      Inr (status_dict ''failed'' ''Payment failed'',
           db\<lparr>payment_transactions := update_first (\<lambda>t. paystack_reference t = R)
                 (\<lambda>t. t\<lparr>status := ''failed''\<rparr>) (payment_transactions db)\<rparr>)"
    if i: "init_paystack_payment env = Inr self"
      and a: "is_ascii (hmac_sha512_hexdigest X (secret_key self) (json_dumps wd))"
      and ev: "webhook_event wd = Inr (JStr ''charge.failed'')"
      and r: "webhook_reference wd = Inr (JStr R)"
    using handle_failed_run[OF i signature_accepted[OF a] ev r, of now db] .
  show ?thesis
    using refused accepted dumps_spaced
      handle_wrong_signature[of env self "hmac_sha512_hexdigest X (secret_key self) spaced_body"
        X spaced_decoded now db]
    by blast
qed

theorem handler_signs_reserialized_payload_witness:
  "init_paystack_payment env0 = Inr client0
   \<and> is_ascii (hmac_sha512_hexdigest X0 (secret_key client0) spaced_body)
   \<and> is_ascii (hmac_sha512_hexdigest X0 (secret_key client0) (json_dumps spaced_decoded))
   \<and> hmac_sha512_hexdigest X0 (secret_key client0) spaced_body \<noteq>
       hmac_sha512_hexdigest X0 (secret_key client0) (json_dumps spaced_decoded)
   \<and> handle_paystack_webhook X0 env0 spaced_decoded
        (Some (hmac_sha512_hexdigest X0 (secret_key client0) spaced_body)) 0
        (sample_db ''pending'' ''free'' None) =
      Inr (status_dict ''error'' ''Invalid signature'', sample_db ''pending'' ''free'' None)
   \<and> is_ascii (hmac_sha512_hexdigest X0 (secret_key client0)
        (json_dumps (sample_webhook ''charge.failed'' ''R1'' ''user@x.com'')))
   \<and> webhook_event (sample_webhook ''charge.failed'' ''R1'' ''user@x.com'') = Inr (JStr ''charge.failed'')
   \<and> webhook_reference (sample_webhook ''charge.failed'' ''R1'' ''user@x.com'') = Inr (JStr ''R1'')
   \<and> handle_paystack_webhook X0 env0 (sample_webhook ''charge.failed'' ''R1'' ''user@x.com'')
        (Some (hmac_sha512_hexdigest X0 (secret_key client0)
           (json_dumps (sample_webhook ''charge.failed'' ''R1'' ''user@x.com'')))) 0
        (sample_db ''pending'' ''free'' None) =
      Inr (status_dict ''failed'' ''Payment failed'', sample_db ''failed'' ''free'' None)
   \<and> Some ''00'' \<noteq> Some (hmac_sha512_hexdigest X0 (secret_key client0)
        (json_dumps (sample_webhook ''charge.failed'' ''R1'' ''user@x.com'')))
   \<and> (\<exists>m. handle_paystack_webhook X0 env0 (sample_webhook ''charge.failed'' ''R1'' ''user@x.com'')
        (Some ''00'') 0 (sample_db ''pending'' ''free'' None) =
      Inr (status_dict ''error'' m, sample_db ''pending'' ''free'' None))"
proof -
  let ?db = "sample_db ''pending'' ''free'' None"
  let ?wf = "sample_webhook ''charge.failed'' ''R1'' ''user@x.com''"
  have a1: "is_ascii (hmac_sha512_hexdigest X0 (secret_key client0) spaced_body)"
    and a2: "is_ascii (hmac_sha512_hexdigest X0 (secret_key client0) (json_dumps spaced_decoded))"
    and a3: "is_ascii (hmac_sha512_hexdigest X0 (secret_key client0) (json_dumps ?wf))"
    by (simp_all add: X0_def is_ascii_str_nat)
  have d: "hmac_sha512_hexdigest X0 (secret_key client0) spaced_body \<noteq>
       hmac_sha512_hexdigest X0 (secret_key client0) (json_dumps spaced_decoded)"
    by (simp add: X0_def spaced_decoded_def spaced_body_def client0_def
          encode_basestring_ascii_def escape_char_def str_nat.simps digit_values)
  have f: "Some ''00'' \<noteq> Some (hmac_sha512_hexdigest X0 (secret_key client0) (json_dumps ?wf))"
    by (simp add: X0_def client0_def sample_webhook_def encode_basestring_ascii_def escape_char_def
          str_nat.simps digit_values)
  note w = handler_signs_reserialized_payload[where X = X0 and env = env0 and self = client0
      and wd = ?wf and sg = "Some ''00''" and R = "''R1''" and now = 0 and db = ?db]
  from w init_env0 a1 a2 d
  have r1: "handle_paystack_webhook X0 env0 spaced_decoded
        (Some (hmac_sha512_hexdigest X0 (secret_key client0) spaced_body)) 0 ?db =
      Inr (status_dict ''error'' ''Invalid signature'', ?db)"
    by blast
  from w init_env0 a3 sample_failed_fields[of "''R1''" "''user@x.com''"]
  have "handle_paystack_webhook X0 env0 ?wf
        (Some (hmac_sha512_hexdigest X0 (secret_key client0) (json_dumps ?wf))) 0 ?db =
      Inr (status_dict ''failed'' ''Payment failed'',
           ?db\<lparr>payment_transactions := update_first (\<lambda>t. paystack_reference t = ''R1'')
                 (\<lambda>t. t\<lparr>status := ''failed''\<rparr>) (payment_transactions ?db)\<rparr>)"
    by blast
  then have r2: "handle_paystack_webhook X0 env0 ?wf
        (Some (hmac_sha512_hexdigest X0 (secret_key client0) (json_dumps ?wf))) 0 ?db =
      Inr (status_dict ''failed'' ''Payment failed'', sample_db ''failed'' ''free'' None)"
    by (simp add: sample_db_def)
  from w init_env0 f
  have r3: "\<exists>m. handle_paystack_webhook X0 env0 ?wf (Some ''00'') 0 ?db =
      Inr (status_dict ''error'' m, ?db)"
    by blast
  from init_env0 a1 a2 a3 d r1 sample_failed_fields[of "''R1''" "''user@x.com''"] r2 f r3
  show ?thesis by blast
qed

text \<open>
  Claim C4, as the code has it. Every reconciliation operation leaves each stored
  transaction as it was or sets only its status, to \<^verbatim>\<open>completed\<close> or to \<^verbatim>\<open>failed\<close>; rows
  are only appended and no operation writes \<^verbatim>\<open>pending\<close>. The status is written without
  a look at the current one. Poll verify answers with success and completes the
  transaction from any status, in \<^verbatim>\<open>verify_payment\<close> and in \<^verbatim>\<open>payment_success\<close>, and an
  accepted \<^verbatim>\<open>charge.failed\<close> answers \<^verbatim>\<open>failed\<close> and sets \<^verbatim>\<open>failed\<close> from any status: for
  these, reconciling a terminal transaction is not an error, and it is a change of the
  status when the status differs. A \<^verbatim>\<open>charge.success\<close> handed to
  \<^verbatim>\<open>handle_paystack_webhook\<close> for a reference the ledger holds changes no row and does
  not answer with success; when the signature is accepted and a user has the customer's
  email the answer is an error, the one of the insertion of a second row for the
  reference.
\<close>

theorem reconciliation_writes_terminal_status:
  "(verify_payment X env cu R now db = Inr (r1, db1) \<longrightarrow>
      status_writes_only (payment_transactions db) (payment_transactions db1))
   \<and> (payment_success X env reference now db = Inr (r2, db2) \<longrightarrow>
      status_writes_only (payment_transactions db) (payment_transactions db2))
   \<and> (paystack_webhook X env req now db = Inr (r3, db3) \<longrightarrow>
      status_writes_only (payment_transactions db) (payment_transactions db3))
   \<and> (handle_paystack_webhook X env wd sg now db = Inr (r4, db4) \<longrightarrow>
      status_writes_only (payment_transactions db) (payment_transactions db4))
   \<and> (find (\<lambda>u. id' u = cu) (users db) = Some u \<and> paystack env = Some self
        \<and> verify_transaction X self R = Inr v \<and> reports_success v = Inr True
        \<and> find (\<lambda>t. paystack_reference t = R \<and> user_id t = cu) (payment_transactions db) = Some t \<longrightarrow>
      (\<exists>b db'. verify_payment X env cu R now db = Inr (Jsonify b 200, db') \<and>
         find (\<lambda>t. paystack_reference t = R \<and> user_id t = cu) (payment_transactions db') =
           Some (t\<lparr>status := ''completed''\<rparr>)))
   \<and> (init_paystack_payment env = Inr self
        \<and> verify_webhook_signature X self (json_dumps wd) sg = Inr True
        \<and> webhook_event wd = Inr (JStr ''charge.failed'')
        \<and> webhook_reference wd = Inr (JStr R) \<longrightarrow>
      handle_paystack_webhook X env wd sg now db =
        Inr (status_dict ''failed'' ''Payment failed'',
             db\<lparr>payment_transactions := update_first (\<lambda>t. paystack_reference t = R)
                   (\<lambda>t. t\<lparr>status := ''failed''\<rparr>) (payment_transactions db)\<rparr>))
   \<and> (R \<noteq> [] \<and> paystack env = Some self
        \<and> verify_transaction X self R = Inr v \<and> reports_success v = Inr True
        \<and> find (\<lambda>t. paystack_reference t = R) (payment_transactions db) = Some t'
        \<and> find (\<lambda>u. id' u = user_id t') (users db) = Some owner \<longrightarrow>
      (\<exists>db'. payment_success X env (Some R) now db =
                Inr (Render_template ''index.html'' ''payment_success'', db') \<and>
         find (\<lambda>t. paystack_reference t = R) (payment_transactions db') =
           Some (t'\<lparr>status := ''completed''\<rparr>)))
   \<and> (R \<in> set (map paystack_reference (payment_transactions db))
        \<and> webhook_event ws = Inr (JStr ''charge.success'')
        \<and> webhook_reference ws = Inr (JStr R) \<longrightarrow>
      (\<exists>res. handle_paystack_webhook X env ws ss now db = Inr (res, db) \<and>
         res \<noteq> status_dict ''success'' ''Subscription activated''))
   \<and> (R \<in> set (map paystack_reference (payment_transactions db))
        \<and> init_paystack_payment env = Inr self
        \<and> verify_webhook_signature X self (json_dumps ws) ss = Inr True
        \<and> webhook_event ws = Inr (JStr ''charge.success'')
        \<and> webhook_reference ws = Inr (JStr R)
        \<and> webhook_email ws = Inr (JStr e)
        \<and> webhook_plan_type ws = Inr (JStr p)
        \<and> webhook_amount ws = Inr amt
        \<and> find (\<lambda>u. email u = e) (users db) = Some customer \<longrightarrow>
      handle_paystack_webhook X env ws ss now db =
        Inr (status_dict ''error'' (str_exn X IntegrityError), db))"
  using verify_payment_ledger[of X env cu R now db r1 db1]
    payment_success_ledger[of X env reference now db r2 db2]
    paystack_webhook_ledger[of X env req now db r3 db3]
    handle_ledger[of X env wd sg now db r4 db4]
    verify_payment_completes[of cu db u env self X R v t now]
    handle_failed_run[of env self X wd sg R now db]
    payment_success_completes[of R env self X v db t' owner now]
    handle_duplicate_not_success[of R db ws X env ss now]
    handle_duplicate_error[of env self X ws ss R e p amt db customer now]
  by blast

theorem reconciliation_writes_terminal_status_witness:
  "verify_payment X0 env0 ''u1'' ''R1'' 0 (sample_db ''failed'' ''free'' None) =
     Inr (Jsonify (activated X0 (timedelta 30)) 200,
          sample_db ''completed'' ''premium'' (Some (timedelta 30)))
   \<and> status_writes_only (payment_transactions (sample_db ''failed'' ''free'' None))
        (payment_transactions (sample_db ''completed'' ''premium'' (Some (timedelta 30))))
   \<and> find (\<lambda>u. id' u = ''u1'') (users (sample_db ''failed'' ''free'' None)) =
        Some \<lparr>id' = ''u1'', email = ''user@x.com'', subscription_type = ''free'',
               subscription_expires = None\<rparr>
   \<and> paystack env0 = Some client0
   \<and> verify_transaction X0 client0 ''R1'' = Inr gateway_success
   \<and> reports_success gateway_success = Inr True
   \<and> (\<exists>t. find (\<lambda>t. paystack_reference t = ''R1'' \<and> user_id t = ''u1'')
             (payment_transactions (sample_db ''failed'' ''free'' None)) = Some t \<and>
          (\<exists>b db'. verify_payment X0 env0 ''u1'' ''R1'' 0 (sample_db ''failed'' ''free'' None) =
              Inr (Jsonify b 200, db') \<and>
            find (\<lambda>t. paystack_reference t = ''R1'' \<and> user_id t = ''u1'') (payment_transactions db') =
              Some (t\<lparr>status := ''completed''\<rparr>)))
   \<and> (\<exists>t. find (\<lambda>t. paystack_reference t = ''R1'')
             (payment_transactions (sample_db ''failed'' ''free'' None)) = Some t \<and>
          (\<exists>db'. payment_success X0 env0 (Some ''R1'') 0 (sample_db ''failed'' ''free'' None) =
              Inr (Render_template ''index.html'' ''payment_success'', db') \<and>
            find (\<lambda>t. paystack_reference t = ''R1'') (payment_transactions db') =
              Some (t\<lparr>status := ''completed''\<rparr>)))
   \<and> ''R1'' \<in> set (map paystack_reference (payment_transactions (sample_db ''failed'' ''free'' None)))
   \<and> init_paystack_payment env0 = Inr client0
   \<and> verify_webhook_signature X0 client0
        (json_dumps (sample_webhook ''charge.success'' ''R1'' ''user@x.com''))
        (signed X0 (sample_webhook ''charge.success'' ''R1'' ''user@x.com'')) = Inr True
   \<and> webhook_event (sample_webhook ''charge.success'' ''R1'' ''user@x.com'') = Inr (JStr ''charge.success'')
   \<and> webhook_reference (sample_webhook ''charge.success'' ''R1'' ''user@x.com'') = Inr (JStr ''R1'')
   \<and> handle_paystack_webhook X0 env0 (sample_webhook ''charge.success'' ''R1'' ''user@x.com'')
        (signed X0 (sample_webhook ''charge.success'' ''R1'' ''user@x.com'')) 0
        (sample_db ''failed'' ''free'' None) =
      Inr (status_dict ''error'' (str_exn X0 IntegrityError), sample_db ''failed'' ''free'' None)"
proof -
  let ?db = "sample_db ''failed'' ''free'' None"
  let ?t = "\<lparr>user_id = ''u1'', paystack_reference = ''R1'', amount = 999, currency = ''USD'',
            status = ''failed'', plan_type = Some ''monthly''\<rparr>"
  let ?u = "\<lparr>id' = ''u1'', email = ''user@x.com'', subscription_type = ''free'',
               subscription_expires = None\<rparr>"
  let ?ws = "sample_webhook ''charge.success'' ''R1'' ''user@x.com''"
  have h1: "verify_payment X0 env0 ''u1'' ''R1'' 0 ?db =
     Inr (Jsonify (activated X0 (timedelta 30)) 200,
          sample_db ''completed'' ''premium'' (Some (timedelta 30)))"
    by (simp add: verify_payment_def Let_def bind_exn_def sample_db_def paystack_env0 X0_confirms
          complete_payment_def)
  have h2: "find (\<lambda>u. id' u = ''u1'') (users ?db) = Some ?u"
    and h3: "find (\<lambda>t. paystack_reference t = ''R1'' \<and> user_id t = ''u1'')
             (payment_transactions ?db) = Some ?t"
    and h4: "find (\<lambda>t. paystack_reference t = ''R1'') (payment_transactions ?db) = Some ?t"
    and h5: "find (\<lambda>u. id' u = user_id ?t) (users ?db) = Some ?u"
    and h6: "''R1'' \<in> set (map paystack_reference (payment_transactions ?db))"
    and h7: "find (\<lambda>u. email u = ''user@x.com'') (users ?db) = Some ?u"
    and h8: "''R1'' \<noteq> []"
    by (simp_all add: sample_db_def)
  note w = reconciliation_writes_terminal_status[where X = X0 and env = env0 and cu = "''u1''"
      and R = "''R1''" and now = 0 and db = ?db and ?r1.0 = "Jsonify (activated X0 (timedelta 30)) 200"
      and ?db1.0 = "sample_db ''completed'' ''premium'' (Some (timedelta 30))"
      and self = client0 and v = gateway_success and t = ?t and t' = ?t and owner = ?u
      and u = ?u and ws = ?ws and ss = "signed X0 ?ws" and e = "''user@x.com''"
      and p = "''monthly''" and amt = 17982 and customer = ?u]
  from w h1
  have c1: "status_writes_only (payment_transactions ?db)
        (payment_transactions (sample_db ''completed'' ''premium'' (Some (timedelta 30))))"
    by blast
  from w h2 h3 paystack_env0 X0_confirms(1)[of "''R1''"] X0_confirms(2)
  have c2: "\<exists>b db'. verify_payment X0 env0 ''u1'' ''R1'' 0 ?db = Inr (Jsonify b 200, db') \<and>
            find (\<lambda>t. paystack_reference t = ''R1'' \<and> user_id t = ''u1'') (payment_transactions db') =
              Some (?t\<lparr>status := ''completed''\<rparr>)"
    by blast
  from w h8 h4 h5 paystack_env0 X0_confirms(1)[of "''R1''"] X0_confirms(2)
  have c3: "\<exists>db'. payment_success X0 env0 (Some ''R1'') 0 ?db =
              Inr (Render_template ''index.html'' ''payment_success'', db') \<and>
            find (\<lambda>t. paystack_reference t = ''R1'') (payment_transactions db') =
              Some (?t\<lparr>status := ''completed''\<rparr>)"
    by blast
  have hs: "''R1'' \<in> set (map paystack_reference (payment_transactions ?db))
        \<and> init_paystack_payment env0 = Inr client0
        \<and> verify_webhook_signature X0 client0 (json_dumps ?ws) (signed X0 ?ws) = Inr True
        \<and> webhook_event ?ws = Inr (JStr ''charge.success'')
        \<and> webhook_reference ?ws = Inr (JStr ''R1'')
        \<and> webhook_email ?ws = Inr (JStr ''user@x.com'')
        \<and> webhook_plan_type ?ws = Inr (JStr ''monthly'')
        \<and> webhook_amount ?ws = Inr 17982
        \<and> find (\<lambda>u. email u = ''user@x.com'') (users ?db) = Some ?u"
    by (simp only: h6 h7 init_env0 client0_accepts_signed sample_success_fields sample_amount
          simp_thms)
  have c4: "handle_paystack_webhook X0 env0 ?ws (signed X0 ?ws) 0 ?db =
      Inr (status_dict ''error'' (str_exn X0 IntegrityError), ?db)"
    using w[THEN conjunct2, THEN conjunct2, THEN conjunct2, THEN conjunct2, THEN conjunct2,
        THEN conjunct2, THEN conjunct2, THEN conjunct2, THEN mp, OF hs] .
  from h1 c1 h2 paystack_env0 X0_confirms(1)[of "''R1''"] X0_confirms(2) h3 c2 h4 c3 h6 init_env0
    client0_accepts_signed[of ?ws] sample_success_fields(1,2)[of "''R1''" "''user@x.com''"] c4
  show ?thesis by blast
qed

text \<open>The claim as the specification words it fails: a successful verification moves a
  failed transaction to \<^verbatim>\<open>completed\<close>.\<close>

theorem success_signal_revives_failed:
  "verify_payment X0 env0 ''u1'' ''R1'' 0 (sample_db ''failed'' ''free'' None) =
     Inr (Jsonify (activated X0 (timedelta 30)) 200,
          sample_db ''completed'' ''premium'' (Some (timedelta 30)))
   \<and> map status (payment_transactions (sample_db ''failed'' ''free'' None)) = [''failed'']
   \<and> map status (payment_transactions (sample_db ''completed'' ''premium'' (Some (timedelta 30)))) =
       [''completed'']"
  by (simp add: verify_payment_def Let_def bind_exn_def sample_db_def paystack_env0 X0_confirms
          complete_payment_def)

text \<open>
  Claim C5. For a plan type \<open>p\<close> that is \<^verbatim>\<open>monthly\<close> or \<^verbatim>\<open>annual\<close>, every successful
  reconciliation leaves the owning user premium with an expiry of exactly the current time
  plus 365 days for \<^verbatim>\<open>annual\<close> and plus 30 days otherwise: in \<^verbatim>\<open>verify_payment\<close> (the
  caller owns the transaction), in \<^verbatim>\<open>payment_success\<close> (the user the transaction
  points to) and in \<^verbatim>\<open>handle_paystack_webhook\<close> (the user with the customer's email, who
  owns the inserted transaction). The stored expiry before the call does not occur in the
  result, whatever the state the reconciliation starts from.
\<close>

theorem reconciliation_sets_expiry:
  "p = ''monthly'' \<or> p = ''annual'' \<Longrightarrow>
   (verify_payment X env cu R now db = Inr (Jsonify b 200, db1)
      \<and> find (\<lambda>t. paystack_reference t = R \<and> user_id t = cu) (payment_transactions db) = Some t
      \<and> plan_type t = Some p \<longrightarrow>
    (\<exists>u'. find (\<lambda>u. id' u = cu) (users db1) = Some u' \<and> subscription_type u' = ''premium'' \<and>
        subscription_expires u' = Some (now + timedelta (if p = ''annual'' then 365 else 30))))
   \<and> (payment_success X env (Some R) now db = Inr (Render_template ''index.html'' ''payment_success'', db2)
      \<and> find (\<lambda>t. paystack_reference t = R) (payment_transactions db) = Some t2
      \<and> plan_type t2 = Some p \<longrightarrow>
    (\<exists>u'. find (\<lambda>u. id' u = user_id t2) (users db2) = Some u' \<and> subscription_type u' = ''premium'' \<and>
        subscription_expires u' = Some (now + timedelta (if p = ''annual'' then 365 else 30))))
   \<and> (handle_paystack_webhook X env wd sg now db =
          Inr (status_dict ''success'' ''Subscription activated'', db3)
      \<and> webhook_plan_type wd = Inr (JStr p) \<and> webhook_email wd = Inr (JStr e) \<longrightarrow>
    (\<exists>u'. find (\<lambda>u. email u = e) (users db3) = Some u' \<and> subscription_type u' = ''premium'' \<and>
        subscription_expires u' = Some (now + timedelta (if p = ''annual'' then 365 else 30))))"
proof (intro conjI impI)
  assume "verify_payment X env cu R now db = Inr (Jsonify b 200, db1)
      \<and> find (\<lambda>t. paystack_reference t = R \<and> user_id t = cu) (payment_transactions db) = Some t
      \<and> plan_type t = Some p"
  then show "\<exists>u'. find (\<lambda>u. id' u = cu) (users db1) = Some u' \<and> subscription_type u' = ''premium'' \<and>
        subscription_expires u' = Some (now + timedelta (if p = ''annual'' then 365 else 30))"
    using verify_payment_expiry[of X env cu R now db b db1 t] by (auto simp: plan_days_def)
next
  assume "payment_success X env (Some R) now db = Inr (Render_template ''index.html'' ''payment_success'', db2)
      \<and> find (\<lambda>t. paystack_reference t = R) (payment_transactions db) = Some t2
      \<and> plan_type t2 = Some p"
  then show "\<exists>u'. find (\<lambda>u. id' u = user_id t2) (users db2) = Some u' \<and> subscription_type u' = ''premium'' \<and>
        subscription_expires u' = Some (now + timedelta (if p = ''annual'' then 365 else 30))"
    using payment_success_expiry[of X env R now db db2 t2] by (auto simp: plan_days_def)
next
  assume "handle_paystack_webhook X env wd sg now db =
          Inr (status_dict ''success'' ''Subscription activated'', db3)
      \<and> webhook_plan_type wd = Inr (JStr p) \<and> webhook_email wd = Inr (JStr e)"
  then show "\<exists>u'. find (\<lambda>u. email u = e) (users db3) = Some u' \<and> subscription_type u' = ''premium'' \<and>
        subscription_expires u' = Some (now + timedelta (if p = ''annual'' then 365 else 30))"
    using handle_success_expiry[of X env wd sg now db db3 "JStr p" e] by auto
qed

theorem reconciliation_sets_expiry_witness:
  "(''monthly'' = ''monthly'' \<or> ''monthly'' = ''annual'')
   \<and> verify_payment X0 env0 ''u1'' ''R1'' 5 (sample_db ''pending'' ''free'' None) =
        Inr (Jsonify (activated X0 (5 + timedelta 30)) 200,
             sample_db ''completed'' ''premium'' (Some (5 + timedelta 30)))
   \<and> (\<exists>t. find (\<lambda>t. paystack_reference t = ''R1'' \<and> user_id t = ''u1'')
            (payment_transactions (sample_db ''pending'' ''free'' None)) = Some t
          \<and> plan_type t = Some ''monthly'')
   \<and> (\<exists>u'. find (\<lambda>u. id' u = ''u1'')
              (users (sample_db ''completed'' ''premium'' (Some (5 + timedelta 30)))) = Some u'
          \<and> subscription_type u' = ''premium''
          \<and> subscription_expires u' = Some (5 + timedelta 30))
   \<and> payment_success X0 env0 (Some ''R1'') 5 (sample_db ''pending'' ''free'' None) =
        Inr (Render_template ''index.html'' ''payment_success'',
             sample_db ''completed'' ''premium'' (Some (5 + timedelta 30)))
   \<and> (\<exists>t. find (\<lambda>t. paystack_reference t = ''R1'')
            (payment_transactions (sample_db ''pending'' ''free'' None)) = Some t
          \<and> plan_type t = Some ''monthly''
          \<and> (\<exists>u'. find (\<lambda>u. id' u = user_id t)
                 (users (sample_db ''completed'' ''premium'' (Some (5 + timedelta 30)))) = Some u'
               \<and> subscription_type u' = ''premium''
               \<and> subscription_expires u' = Some (5 + timedelta 30)))
   \<and> webhook_plan_type (sample_webhook ''charge.success'' ''R9'' ''user@x.com'') = Inr (JStr ''monthly'')
   \<and> webhook_email (sample_webhook ''charge.success'' ''R9'' ''user@x.com'') = Inr (JStr ''user@x.com'')
   \<and> (\<exists>db3. handle_paystack_webhook X0 env0 (sample_webhook ''charge.success'' ''R9'' ''user@x.com'')
          (signed X0 (sample_webhook ''charge.success'' ''R9'' ''user@x.com'')) 5
          (sample_db ''pending'' ''free'' None) =
            Inr (status_dict ''success'' ''Subscription activated'', db3)
        \<and> (\<exists>u'. find (\<lambda>u. email u = ''user@x.com'') (users db3) = Some u'
              \<and> subscription_type u' = ''premium''
              \<and> subscription_expires u' = Some (5 + timedelta 30)))"
proof -
  let ?db = "sample_db ''pending'' ''free'' None"
  let ?t = "\<lparr>user_id = ''u1'', paystack_reference = ''R1'', amount = 999, currency = ''USD'',
            status = ''pending'', plan_type = Some ''monthly''\<rparr>"
  let ?wd = "sample_webhook ''charge.success'' ''R9'' ''user@x.com''"
  have p: "''monthly'' = ''monthly'' \<or> ''monthly'' = ''annual''" by simp
  have t: "find (\<lambda>t. paystack_reference t = ''R1'' \<and> user_id t = ''u1'') (payment_transactions ?db) = Some ?t"
    "find (\<lambda>t. paystack_reference t = ''R1'') (payment_transactions ?db) = Some ?t"
    "plan_type ?t = Some ''monthly''" "user_id ?t = ''u1''"
    by (simp_all add: sample_db_def)
  note w = reconciliation_sets_expiry[OF p, where X = X0 and env = env0 and cu = "''u1''"
      and R = "''R1''" and now = 5 and db = ?db and t = ?t and ?t2.0 = ?t and wd = ?wd
      and sg = "signed X0 ?wd" and e = "''user@x.com''"
      and b = "activated X0 (5 + timedelta 30)"
      and ?db1.0 = "sample_db ''completed'' ''premium'' (Some (5 + timedelta 30))"
      and ?db2.0 = "sample_db ''completed'' ''premium'' (Some (5 + timedelta 30))"]
  have r1: "verify_payment X0 env0 ''u1'' ''R1'' 5 ?db =
        Inr (Jsonify (activated X0 (5 + timedelta 30)) 200,
             sample_db ''completed'' ''premium'' (Some (5 + timedelta 30)))"
    by (rule sample_verify_run)
  have r2: "payment_success X0 env0 (Some ''R1'') 5 ?db =
        Inr (Render_template ''index.html'' ''payment_success'',
             sample_db ''completed'' ''premium'' (Some (5 + timedelta 30)))"
    by (rule sample_payment_success_run)
  obtain db3 where r3: "handle_paystack_webhook X0 env0 ?wd (signed X0 ?wd) 5 ?db =
        Inr (status_dict ''success'' ''Subscription activated'', db3)"
    using sample_charge_success_run[of 5] by blast
  have f: "webhook_plan_type ?wd = Inr (JStr ''monthly'')" "webhook_email ?wd = Inr (JStr ''user@x.com'')"
    by (rule sample_success_fields)+
  have c1: "\<exists>u'. find (\<lambda>u. id' u = ''u1'')
              (users (sample_db ''completed'' ''premium'' (Some (5 + timedelta 30)))) = Some u'
          \<and> subscription_type u' = ''premium''
          \<and> subscription_expires u' = Some (5 + timedelta 30)"
    using w[THEN conjunct1, rule_format, OF conjI[OF r1 conjI[OF t(1) t(3)]]] by simp
  have c3: "\<exists>u'. find (\<lambda>u. email u = ''user@x.com'') (users db3) = Some u'
              \<and> subscription_type u' = ''premium''
              \<and> subscription_expires u' = Some (5 + timedelta 30)"
    using w[THEN conjunct2, THEN conjunct2, rule_format, where ?db3.0 = db3,
        OF conjI[OF r3 conjI[OF f(1) f(2)]]] by simp
  have c2: "\<exists>t. find (\<lambda>t. paystack_reference t = ''R1'') (payment_transactions ?db) = Some t
          \<and> plan_type t = Some ''monthly''
          \<and> (\<exists>u'. find (\<lambda>u. id' u = user_id t)
                 (users (sample_db ''completed'' ''premium'' (Some (5 + timedelta 30)))) = Some u'
               \<and> subscription_type u' = ''premium''
               \<and> subscription_expires u' = Some (5 + timedelta 30))"
    using w[THEN conjunct2, THEN conjunct1, rule_format, OF conjI[OF r2 conjI[OF t(2) t(3)]]] t(2) t(3)
    by (intro exI[of _ ?t]) simp
  have tt: "\<exists>t. find (\<lambda>t. paystack_reference t = ''R1'' \<and> user_id t = ''u1'')
            (payment_transactions ?db) = Some t \<and> plan_type t = Some ''monthly''"
    using t(1) t(3) by blast
  have c3': "\<exists>db3. handle_paystack_webhook X0 env0 ?wd (signed X0 ?wd) 5 ?db =
            Inr (status_dict ''success'' ''Subscription activated'', db3)
        \<and> (\<exists>u'. find (\<lambda>u. email u = ''user@x.com'') (users db3) = Some u'
              \<and> subscription_type u' = ''premium''
              \<and> subscription_expires u' = Some (5 + timedelta 30))"
    using r3 c3 by blast
  show ?thesis
    by (intro conjI) (rule p r1 tt c1 r2 c2 f c3')+
qed

text \<open>
  Claim C6 at the failing input. The reference is a function of the clock reading down to
  the second and of \<^verbatim>\<open>hash(email) % 10000\<close>: two initializations for one email whose
  clock readings differ only below the second build the same reference.
\<close>

theorem reference_repeats_within_a_second:
  "reference_of X (t\<lparr>microsecond := a\<rparr>) e = reference_of X (t\<lparr>microsecond := b\<rparr>) e"
  by (simp add: reference_of_def strftime_YmdHMS_def)

theorem reference_repeats_within_a_second_witness:
  "reference_of X0 (clock0\<lparr>microsecond := 1\<rparr>) ''user@x.com'' =
   reference_of X0 (clock0\<lparr>microsecond := 999999\<rparr>) ''user@x.com''
   \<and> reference_of X0 (clock0\<lparr>microsecond := 1\<rparr>) ''user@x.com'' = ''eduhealth_20240102030405_10''"
  using reference_repeats_within_a_second[where X = X0 and t = clock0 and a = 1
      and e = "''user@x.com''" and b = 999999]
  by (simp add: reference_of_def strftime_YmdHMS_def X0_def clock0_def zfill_def str_nat.simps
        str_int_def digit_values)




text \<open>
  Claim C8 at the failing input. The URL \<^verbatim>\<open>/api/payment/webhook\<close> is served by
  \<^verbatim>\<open>paystack_webhook\<close>, the view registered first. With the client configured it answers
  every delivery, whatever its signature, with status 500 and the body
  \<^verbatim>\<open>{"error": "Webhook processing failed"}\<close>, and stores nothing: the call
  \<^verbatim>\<open>paystack.verify_webhook\<close> raises inside the \<^verbatim>\<open>try\<close>. Without a client the answer is
  500 as well. So a signature failure is never answered with a client error. The second
  view for the URL, \<^verbatim>\<open>payment_webhook\<close>, is not the one a request reaches; called by
  itself with the client configured it answers every request with status 200, and when
  the signature check does not succeed the stored state is unchanged and the body has
  status \<^verbatim>\<open>error\<close>.
\<close>

theorem webhook_signature_failure_status:
  "post_api_payment_webhook X env req now db = paystack_webhook X env req now db
   \<and> (paystack env = Some self \<longrightarrow>
        post_api_payment_webhook X env req now db =
          Inr (Jsonify (error_body ''Webhook processing failed'') 500, db))
   \<and> (paystack env = None \<longrightarrow>
        post_api_payment_webhook X env req now db =
          Inr (Jsonify (error_body ''Payment system not configured'') 500, db))
   \<and> (paystack env = Some self \<longrightarrow>
        (\<exists>body db'. payment_webhook X env req now db = Inr (Jsonify body 200, db')
           \<and> (verify_webhook_signature X self (json_dumps (get_json req)) (X_Paystack_Signature req)
                  \<noteq> Inr True
                \<longrightarrow> db' = db \<and> (\<exists>m. body = status_dict ''error'' m))))"
proof -
  have direct: "\<exists>body db'. payment_webhook X env req now db = Inr (Jsonify body 200, db')
        \<and> (verify_webhook_signature X self (json_dumps (get_json req)) (X_Paystack_Signature req)
               \<noteq> Inr True
             \<longrightarrow> db' = db \<and> (\<exists>m. body = status_dict ''error'' m))"
    if p: "paystack env = Some self"
  proof (cases "verify_webhook_signature X self (json_dumps (get_json req)) (X_Paystack_Signature req) = Inr True")
    case True
    with payment_webhook_200[OF p, of X req now db] show ?thesis by auto
  next
    case False
    from p have i: "init_paystack_payment env = Inr self" by (simp add: paystack_init)
    from handle_rejects[OF i False, of now db] p show ?thesis
      by (auto simp: payment_webhook_def)
  qed
  have served: "post_api_payment_webhook X env req now db =
          Inr (Jsonify (error_body ''Webhook processing failed'') 500, db)"
    if p: "paystack env = Some self"
    using paystack_webhook_500[OF p, of X req now db]
    by (simp add: post_api_payment_webhook_view)
  show ?thesis
    using post_api_payment_webhook_view[of X env req now db] served
      post_api_payment_webhook_unconfigured[of env X req now db] direct
    by blast
qed

theorem webhook_signature_failure_status_witness:
  "paystack env0 = Some client0
   \<and> verify_webhook_signature X0 client0 (json_dumps (get_json forged_delivery))
        (X_Paystack_Signature forged_delivery) \<noteq> Inr True
   \<and> post_api_payment_webhook X0 env0 forged_delivery 0 (sample_db ''pending'' ''free'' None) =
       Inr (Jsonify (error_body ''Webhook processing failed'') 500, sample_db ''pending'' ''free'' None)
   \<and> (\<exists>body db'. payment_webhook X0 env0 forged_delivery 0 (sample_db ''pending'' ''free'' None) =
          Inr (Jsonify body 200, db')
        \<and> db' = sample_db ''pending'' ''free'' None \<and> (\<exists>m. body = status_dict ''error'' m))
   \<and> paystack \<lparr>PAYSTACK_PUBLIC_KEY = None, PAYSTACK_SECRET_KEY = None\<rparr> = None
   \<and> post_api_payment_webhook X0 \<lparr>PAYSTACK_PUBLIC_KEY = None, PAYSTACK_SECRET_KEY = None\<rparr>
        forged_delivery 0 (sample_db ''pending'' ''free'' None) =
       Inr (Jsonify (error_body ''Payment system not configured'') 500,
            sample_db ''pending'' ''free'' None)"
proof -
  let ?db = "sample_db ''pending'' ''free'' None"
  let ?off = "\<lparr>PAYSTACK_PUBLIC_KEY = None, PAYSTACK_SECRET_KEY = None\<rparr>"
  have h2: "verify_webhook_signature X0 client0 (json_dumps (get_json forged_delivery))
        (X_Paystack_Signature forged_delivery) \<noteq> Inr True"
    by (simp add: verify_webhook_signature_def X0_def forged_delivery_def client0_def
          encode_basestring_ascii_def escape_char_def str_nat.simps digit_values is_ascii_def)
  have h3: "paystack ?off = None"
    by (simp add: paystack_def init_paystack_payment_def)
  note w = webhook_signature_failure_status[where X = X0 and env = env0 and self = client0
      and req = forged_delivery and now = 0 and db = ?db]
  note u = webhook_signature_failure_status[where X = X0 and env = ?off
      and req = forged_delivery and now = 0 and db = ?db]
  from w paystack_env0
  have r1: "post_api_payment_webhook X0 env0 forged_delivery 0 ?db =
       Inr (Jsonify (error_body ''Webhook processing failed'') 500, ?db)"
    by blast
  from w paystack_env0 h2
  have r2: "\<exists>body db'. payment_webhook X0 env0 forged_delivery 0 ?db = Inr (Jsonify body 200, db')
        \<and> db' = ?db \<and> (\<exists>m. body = status_dict ''error'' m)"
    by blast
  from u h3
  have r3: "post_api_payment_webhook X0 ?off forged_delivery 0 ?db =
       Inr (Jsonify (error_body ''Payment system not configured'') 500, ?db)"
    by blast
  from paystack_env0 h2 r1 r2 h3 r3 show ?thesis by blast
qed

text \<open>
  Claim C9, as the code has it. A \<^verbatim>\<open>charge.failed\<close> payload never changes a user row. When
  its signature is accepted and it names the reference \<open>R\<close>, the first transaction with
  that reference gets the status \<^verbatim>\<open>failed\<close> whatever its status was (and the ledger is as
  before when there is none): the code does not look at the current status.
\<close>

theorem failure_signal:
  "(webhook_event wd = Inr (JStr ''charge.failed'') \<longrightarrow>
      (\<forall>res db'. handle_paystack_webhook X env wd sg now db = Inr (res, db') \<longrightarrow>
         users db' = users db))
   \<and> (init_paystack_payment env = Inr self
        \<and> verify_webhook_signature X self (json_dumps wd) sg = Inr True
        \<and> webhook_event wd = Inr (JStr ''charge.failed'')
        \<and> webhook_reference wd = Inr (JStr R) \<longrightarrow>
      handle_paystack_webhook X env wd sg now db =
        Inr (status_dict ''failed'' ''Payment failed'',
             db\<lparr>payment_transactions := update_first (\<lambda>t. paystack_reference t = R)
                   (\<lambda>t. t\<lparr>status := ''failed''\<rparr>) (payment_transactions db)\<rparr>))"
  using handle_failed_users[of wd X env sg now db] handle_failed_run[of env self X wd sg R now db]
  by blast

theorem failure_signal_witness:
  "webhook_event (sample_webhook ''charge.failed'' ''R1'' ''user@x.com'') = Inr (JStr ''charge.failed'')
   \<and> webhook_reference (sample_webhook ''charge.failed'' ''R1'' ''user@x.com'') = Inr (JStr ''R1'')
   \<and> init_paystack_payment env0 = Inr client0
   \<and> verify_webhook_signature X0 client0
        (json_dumps (sample_webhook ''charge.failed'' ''R1'' ''user@x.com''))
        (signed X0 (sample_webhook ''charge.failed'' ''R1'' ''user@x.com'')) = Inr True
   \<and> handle_paystack_webhook X0 env0 (sample_webhook ''charge.failed'' ''R1'' ''user@x.com'')
        (signed X0 (sample_webhook ''charge.failed'' ''R1'' ''user@x.com'')) 0
        (sample_db ''pending'' ''free'' None) =
      Inr (status_dict ''failed'' ''Payment failed'', sample_db ''failed'' ''free'' None)"
proof -
  let ?wd = "sample_webhook ''charge.failed'' ''R1'' ''user@x.com''"
  note h = sample_failed_fields[of "''R1''" "''user@x.com''"] init_env0 client0_accepts_signed[of ?wd]
  from failure_signal[where X = X0 and env = env0 and self = client0 and wd = ?wd
      and sg = "signed X0 ?wd" and R = "''R1''" and now = 0 and db = "sample_db ''pending'' ''free'' None"] h
  have "handle_paystack_webhook X0 env0 ?wd (signed X0 ?wd) 0 (sample_db ''pending'' ''free'' None) =
        Inr (status_dict ''failed'' ''Payment failed'',
             (sample_db ''pending'' ''free'' None)\<lparr>payment_transactions := update_first (\<lambda>t. paystack_reference t = ''R1'')
                   (\<lambda>t. t\<lparr>status := ''failed''\<rparr>) (payment_transactions (sample_db ''pending'' ''free'' None))\<rparr>)"
    by blast
  then show ?thesis using h by (simp add: sample_db_def)
qed

text \<open>The claim as the specification words it fails: the failure signal moves a
  completed transaction to \<^verbatim>\<open>failed\<close>.\<close>

theorem failure_signal_overwrites_completed:
  "handle_paystack_webhook X0 env0 (sample_webhook ''charge.failed'' ''R1'' ''user@x.com'')
        (signed X0 (sample_webhook ''charge.failed'' ''R1'' ''user@x.com'')) 0
        (sample_db ''completed'' ''premium'' (Some (timedelta 30))) =
      Inr (status_dict ''failed'' ''Payment failed'',
           sample_db ''failed'' ''premium'' (Some (timedelta 30)))"
  using handle_failed_run[OF init_env0 client0_accepts_signed sample_failed_fields,
      of "''R1''" "''user@x.com''" 0 "sample_db ''completed'' ''premium'' (Some (timedelta 30))"]
  by (simp add: sample_db_def)



end
